theory Spec2Isabelle
  imports Complex_Main "HOL-Library.Multiset" "HOL-Library.Log_Nat"
begin

section \<open>Data model (types.ts)\<close>

text \<open>
  The interfaces of \<^verbatim>\<open>types.ts\<close> as records, its enums and string unions as datatypes.
  Optional fields (\<^verbatim>\<open>password?\<close>, \<^verbatim>\<open>userId?\<close>, ...) are \<open>option\<close> values. Several
  interfaces have a field \<^verbatim>\<open>id\<close>, \<^verbatim>\<open>userId\<close> or \<^verbatim>\<open>notes\<close>; those fields carry the
  interface's name as a prefix here, every other field keeps its name.
\<close>

datatype Priority = LOW | MEDIUM | HIGH | URGENT

datatype TaskStatus = TODO | IN_PROGRESS | COMPLETED

record UserProfile =
  user_id :: string
  name :: string
  email :: string
  password :: "string option"
  joinedAt :: string

record Subtask =
  subtask_id :: string
  subtask_title :: string
  isCompleted :: bool

record Task =
  task_id :: string
  task_userId :: string
  title :: string
  description :: string
  dueDate :: string
  priority :: Priority
  status :: TaskStatus
  createdAt :: string
  calendarEventUrl :: "string option"
  subtasks :: "Subtask list option"

record EmailContact =
  contact_id :: string
  contact_userId :: string
  address :: string
  isActive :: bool

datatype ItemType = Type_task | Type_break | Type_focus

record ScheduleItem =
  time :: string
  activity :: string
  item_type :: ItemType
  item_notes :: "string option"

datatype IconKey =
  Icon_brain | Icon_clock | Icon_briefcase | Icon_sun | Icon_coffee | Icon_zap | Icon_list

record PlanTemplate =
  template_id :: string
  template_userId :: "string option"
  label :: string
  iconKey :: IconKey
  prompt :: string
  isCustom :: "bool option"

record DailyPlan =
  date :: string
  plan_userId :: string
  schedule :: "ScheduleItem list"
  plan_notes :: string

section \<open>The unified data service (services/databaseService.ts)\<close>

subsection \<open>Local storage, the remote backend, exceptions\<close>

text \<open>
  \<^verbatim>\<open>localStorage\<close> under the six keys of \<^verbatim>\<open>KEYS\<close>. \<^verbatim>\<open>getLocal\<close> reads an absent key as
  the empty array, so five keys are lists; \<^verbatim>\<open>tf_current_user_profile\<close> is a single object
  or absent. The JSON text is not modelled: what \<^verbatim>\<open>setLocal\<close> wrote is what \<^verbatim>\<open>getLocal\<close>
  reads. A write can fail: \<^verbatim>\<open>localStorage.setItem\<close> throws when the quota is exceeded.
  \<^verbatim>\<open>setLocal\<close> catches that exception, and the writes made through \<^verbatim>\<open>setLocal\<close> are taken
  to succeed. A write made by a bare \<^verbatim>\<open>localStorage.setItem\<close> lets the exception out: its
  outcome is the argument \<open>written\<close> of the operation that makes it.
  \<^verbatim>\<open>localStorage.removeItem\<close> stores nothing and does not fail. The field \<open>sent\<close> records, oldest first, every request the service has issued
  to the remote backend (Firebase Auth and Firestore); it is how a run in remote mode is
  told from a run against local storage.
\<close>

datatype provider = google | apple | github

datatype request =
    CreateUserWithEmailAndPassword string string
  | SignInWithEmailAndPassword string string
  | SendPasswordResetEmail string
  | SignInWithPopup provider
  | SignOut
  | SetDoc string string
  | UpdateDoc string string
  | DeleteDoc string string
  | GetDocs string "(string \<times> string) list"

record world =
  tf_tasks :: "Task list"
  tf_contacts :: "EmailContact list"
  tf_templates :: "PlanTemplate list"
  tf_daily_plans :: "DailyPlan list"
  tf_users :: "UserProfile list"
  tf_current_user_profile :: "UserProfile option"
  sent :: "request list"

definition send :: "request \<Rightarrow> world \<Rightarrow> world" where
  "send r w = w\<lparr>sent := sent w @ [r]\<rparr>"

text \<open>
  A thrown value is an \<^verbatim>\<open>Error\<close> the service makes itself, whatever the Firebase SDK
  rejects with, or the \<^verbatim>\<open>DOMException\<close> of a failed storage write. An operation returns \<open>Inl\<close> of the thrown value when the
  exception leaves it, \<open>Inr\<close> of its value otherwise, together with the world it leaves.
  The remote backend is outside the program: the outcome of each awaited remote call
  (it resolves with a value, or it rejects) is an argument of the operation.
\<close>

datatype exn = Error string | FirebaseError string | DOMException string

type_synonym 'a outcome = "exn + 'a"

type_synonym 'a action = "world \<Rightarrow> (exn + 'a) \<times> world"

abbreviation resolved :: "'a outcome \<Rightarrow> bool" where
  "resolved r \<equiv> \<not> isl r"

text \<open>
  The module state set once at load time: \<^verbatim>\<open>isReal\<close> is \<^verbatim>\<open>isFirebaseConfigured()\<close>;
  \<^verbatim>\<open>firestore\<close> and \<^verbatim>\<open>auth\<close> tell whether the handle of that name was assigned (it stays
  \<^verbatim>\<open>undefined\<close> when the configuration is absent or the initialisation threw).
\<close>

record backend =
  isReal :: bool
  firestore :: bool
  auth :: bool

text \<open>
  \<^verbatim>\<open>isReal && firestore && userId && userId !== 'guest-user'\<close>: an absent or empty
  \<^verbatim>\<open>userId\<close> is falsy.
\<close>

definition useFirestore :: "backend \<Rightarrow> string option \<Rightarrow> bool" where
  "useFirestore be userId =
     (isReal be \<and> firestore be \<and>
      (case userId of None \<Rightarrow> False | Some u \<Rightarrow> u \<noteq> [] \<and> u \<noteq> ''guest-user''))"

text \<open>\<^verbatim>\<open>Array.prototype.findIndex\<close>, with \<open>None\<close> for \<^verbatim>\<open>-1\<close>.\<close>

fun findIndex :: "('a \<Rightarrow> bool) \<Rightarrow> 'a list \<Rightarrow> nat option" where
  "findIndex P [] = None"
| "findIndex P (x # xs) = (if P x then Some 0 else map_option Suc (findIndex P xs))"

text \<open>\<^verbatim>\<open>a || b\<close> on an optional string: \<^verbatim>\<open>undefined\<close>, \<^verbatim>\<open>null\<close> and \<^verbatim>\<open>''\<close> are falsy.\<close>

definition orElse :: "string option \<Rightarrow> string \<Rightarrow> string" where
  "orElse a b = (case a of None \<Rightarrow> b | Some s \<Rightarrow> if s = [] then b else s)"

text \<open>What \<^verbatim>\<open>userCredential.user\<close> carries of a signed-in account.\<close>

record credential =
  uid :: string
  displayName :: "string option"
  cred_email :: "string option"

subsection \<open>Auth and user operations\<close>

text \<open>
  The clock is read through \<^verbatim>\<open>Date.now()\<close> and \<^verbatim>\<open>new Date().toISOString()\<close>; the two
  strings they give are the arguments \<open>nowMs\<close> and \<open>nowIso\<close>.
\<close>

definition getCurrentUser :: "unit outcome \<Rightarrow> string \<Rightarrow> UserProfile action" where
  "getCurrentUser written nowIso w =
     (case tf_current_user_profile w of
        Some stored \<Rightarrow> (Inr stored, w)
      | None \<Rightarrow>
          (let guest = \<lparr>user_id = ''guest-user'', name = ''Guest User'',
                        email = ''guest@taskflow.ai'', password = None, joinedAt = nowIso\<rparr>
           in case written of
                Inl e \<Rightarrow> (Inl e, w)
              | Inr _ \<Rightarrow> (Inr guest, w\<lparr>tf_current_user_profile := Some guest\<rparr>)))"

definition updateUserProfile ::
  "backend \<Rightarrow> unit outcome \<Rightarrow> unit outcome \<Rightarrow> UserProfile \<Rightarrow> UserProfile action"
where
  "updateUserProfile be written saved user w =
     (case written of
        Inl e \<Rightarrow> (Inl e, w)
      | Inr _ \<Rightarrow>
          (let w1 = w\<lparr>tf_current_user_profile := Some user\<rparr> in
           if useFirestore be (Some (user_id user)) then
             (if firestore be then
                (case saved of
                   Inr _ \<Rightarrow> (Inr user, send (SetDoc ''users'' (user_id user)) w1)
                 | Inl _ \<Rightarrow> (Inr user, send (SetDoc ''users'' (user_id user)) w1))
              else (Inr user, w1))
           else (Inr user, w1)))"

definition registerUser ::
  "backend \<Rightarrow> credential outcome \<Rightarrow> unit outcome \<Rightarrow> unit outcome \<Rightarrow> string \<Rightarrow> UserProfile
     \<Rightarrow> UserProfile action"
where
  "registerUser be created saved written nowMs user w =
     (if isReal be \<and> auth be then
        (let w1 = send (CreateUserWithEmailAndPassword (email user)
                          (orElse (password user) ''password'')) w in
         case created of
           Inl e \<Rightarrow> (Inl e, w1)
         | Inr userCredential \<Rightarrow>
             (let newUserProfile = user\<lparr>user_id := uid userCredential, password := Some ''''\<rparr> in
              if firestore be then
                (case saved of
                   Inr _ \<Rightarrow> (Inr newUserProfile, send (SetDoc ''users'' (user_id newUserProfile)) w1)
                 | Inl _ \<Rightarrow> (Inr newUserProfile, send (SetDoc ''users'' (user_id newUserProfile)) w1))
              else (Inr newUserProfile, w1)))
      else
        (let users = tf_users w in
         if find (\<lambda>u. email u = email user) users \<noteq> None then
           (Inl (Error ''User already exists''), w)
         else
           (let newUser = user\<lparr>user_id := ''user_'' @ nowMs\<rparr>;
                w1 = w\<lparr>tf_users := users @ [newUser]\<rparr> in
            case written of
              Inl e \<Rightarrow> (Inl e, w1)
            | Inr _ \<Rightarrow> (Inr newUser, w1\<lparr>tf_current_user_profile := Some newUser\<rparr>))))"

definition loginUser ::
  "backend \<Rightarrow> credential outcome \<Rightarrow> unit outcome \<Rightarrow> string \<Rightarrow> string \<Rightarrow> string
     \<Rightarrow> UserProfile action"
where
  "loginUser be signedIn written nowIso mail pass w =
     (if isReal be \<and> auth be then
        (let w1 = send (SignInWithEmailAndPassword mail pass) w in
         case signedIn of
           Inl e \<Rightarrow> (Inl e, w1)
         | Inr userCredential \<Rightarrow>
             (Inr \<lparr>user_id = uid userCredential,
                   name = orElse (displayName userCredential)
                            (takeWhile (\<lambda>c. c \<noteq> CHR ''@'') mail),
                   email = orElse (cred_email userCredential) mail,
                   password = None, joinedAt = nowIso\<rparr>, w1))
      else
        (let users = tf_users w in
         if mail = ''demo@example.com'' \<and> pass = ''password'' then
           (let demoUser = \<lparr>user_id = ''guest-user'', name = ''Guest User'',
                            email = ''demo@example.com'', password = None, joinedAt = nowIso\<rparr>
            in case written of
                 Inl e \<Rightarrow> (Inl e, w)
               | Inr _ \<Rightarrow> (Inr demoUser, w\<lparr>tf_current_user_profile := Some demoUser\<rparr>))
         else
           (case find (\<lambda>u. email u = mail \<and> password u = Some pass) users of
              None \<Rightarrow> (Inl (Error ''Invalid credentials''), w)
            | Some user \<Rightarrow>
                (case written of
                   Inl e \<Rightarrow> (Inl e, w)
                 | Inr _ \<Rightarrow> (Inr user, w\<lparr>tf_current_user_profile := Some user\<rparr>)))))"

definition resetPassword :: "backend \<Rightarrow> unit outcome \<Rightarrow> string \<Rightarrow> unit action" where
  "resetPassword be mailed mail w =
     (if isReal be \<and> auth be then
        (case mailed of
           Inl e \<Rightarrow> (Inl e, send (SendPasswordResetEmail mail) w)
         | Inr _ \<Rightarrow> (Inr (), send (SendPasswordResetEmail mail) w))
      else (Inr (), w))"

fun providerName :: "provider \<Rightarrow> string" where
  "providerName google = ''google''"
| "providerName apple = ''apple''"
| "providerName github = ''github''"

text \<open>
  \<^verbatim>\<open>toUpperCase\<close> of one character; it is applied to the first letter of a provider name
  only, an ASCII lower-case letter.
\<close>

definition toUpperChar :: "char \<Rightarrow> char" where
  "toUpperChar c =
     (let n = (of_char c :: nat) in if 97 \<le> n \<and> n \<le> 122 then char_of (n - 32) else c)"

definition socialLogin ::
  "backend \<Rightarrow> credential outcome \<Rightarrow> unit outcome \<Rightarrow> unit outcome \<Rightarrow> string \<Rightarrow> string
     \<Rightarrow> provider \<Rightarrow> UserProfile action"
where
  "socialLogin be popup saved written nowMs nowIso p w =
     (if isReal be \<and> auth be then
        (let w1 = send (SignInWithPopup p) w in
         case popup of
           Inl e \<Rightarrow> (Inl e, w1)
         | Inr result \<Rightarrow>
             (let profile = \<lparr>user_id = uid result,
                             name = orElse (displayName result) ''User'',
                             email = orElse (cred_email result) '''',
                             password = None, joinedAt = nowIso\<rparr> in
              if firestore be then
                (case saved of
                   Inr _ \<Rightarrow> (Inr profile, send (SetDoc ''users'' (user_id profile)) w1)
                 | Inl _ \<Rightarrow> (Inr profile, send (SetDoc ''users'' (user_id profile)) w1))
              else (Inr profile, w1)))
      else
        (let profile = \<lparr>user_id = ''social_'' @ providerName p @ ''_'' @ nowMs,
                        name = map toUpperChar (take 1 (providerName p))
                                 @ drop 1 (providerName p) @ '' User'',
                        email = ''user@'' @ providerName p @ ''.com'',
                        password = None, joinedAt = nowIso\<rparr>
         in case written of
              Inl e \<Rightarrow> (Inl e, w)
            | Inr _ \<Rightarrow> (Inr profile, w\<lparr>tf_current_user_profile := Some profile\<rparr>)))"

definition logout :: "backend \<Rightarrow> unit outcome \<Rightarrow> unit action" where
  "logout be signedOut w =
     (if isReal be \<and> auth be then
        (case signedOut of
           Inl e \<Rightarrow> (Inl e, send SignOut w)
         | Inr _ \<Rightarrow> (Inr (), (send SignOut w)\<lparr>tf_current_user_profile := None\<rparr>))
      else (Inr (), w\<lparr>tf_current_user_profile := None\<rparr>))"

subsection \<open>Tasks\<close>

text \<open>
  A read in remote mode returns the documents of the query (the argument \<open>docs\<close>, already
  as \<^verbatim>\<open>{ id: doc.id, ...doc.data() }\<close>), or falls back to the local array when the query
  rejects. A write in remote mode returns after the remote call resolved; when it
  rejects the exception is swallowed and the statements after the \<^verbatim>\<open>if\<close> run.
\<close>

definition getTasks :: "backend \<Rightarrow> Task list outcome \<Rightarrow> string \<Rightarrow> Task list action" where
  "getTasks be docs userId w =
     (if useFirestore be (Some userId) then
        (case docs of
           Inr ds \<Rightarrow> (Inr ds, send (GetDocs ''tasks'' [(''userId'', userId)]) w)
         | Inl _ \<Rightarrow>
             (Inr (filter (\<lambda>t. task_userId t = userId) (tf_tasks w)),
              send (GetDocs ''tasks'' [(''userId'', userId)]) w))
      else (Inr (filter (\<lambda>t. task_userId t = userId) (tf_tasks w)), w))"

definition addTask :: "backend \<Rightarrow> unit outcome \<Rightarrow> Task \<Rightarrow> unit action" where
  "addTask be saved task w =
     (let w1 = (if useFirestore be (Some (task_userId task))
                then send (SetDoc ''tasks'' (task_id task)) w else w) in
      if useFirestore be (Some (task_userId task)) \<and> resolved saved then (Inr (), w1)
      else (Inr (), w1\<lparr>tf_tasks := task # tf_tasks w1\<rparr>))"

definition updateTask :: "backend \<Rightarrow> unit outcome \<Rightarrow> Task \<Rightarrow> unit action" where
  "updateTask be saved updatedTask w =
     (let w1 = (if useFirestore be (Some (task_userId updatedTask))
                then send (UpdateDoc ''tasks'' (task_id updatedTask)) w else w) in
      if useFirestore be (Some (task_userId updatedTask)) \<and> resolved saved then (Inr (), w1)
      else
        (case findIndex (\<lambda>t. task_id t = task_id updatedTask) (tf_tasks w1) of
           Some index \<Rightarrow> (Inr (), w1\<lparr>tf_tasks := (tf_tasks w1)[index := updatedTask]\<rparr>)
         | None \<Rightarrow> (Inr (), w1)))"

definition deleteTask :: "backend \<Rightarrow> unit outcome \<Rightarrow> string \<Rightarrow> unit action" where
  "deleteTask be deleted taskId w =
     (let w1 = (if isReal be \<and> firestore be
                then send (DeleteDoc ''tasks'' taskId) w else w) in
      if isReal be \<and> firestore be \<and> resolved deleted then (Inr (), w1)
      else (Inr (), w1\<lparr>tf_tasks := filter (\<lambda>t. task_id t \<noteq> taskId) (tf_tasks w1)\<rparr>))"

text \<open>
  \<^verbatim>\<open>clearCompletedTasks\<close> in remote mode queries the completed tasks of the user, issues
  one \<^verbatim>\<open>deleteDoc\<close> for each document found (\<open>found\<close> holds their ids) and awaits them
  together; \<open>deleted\<close> is the outcome of that \<^verbatim>\<open>Promise.all\<close>.
\<close>

definition clearCompletedTasks ::
  "backend \<Rightarrow> string list outcome \<Rightarrow> unit outcome \<Rightarrow> string \<Rightarrow> unit action"
where
  "clearCompletedTasks be found deleted userId w =
     (let q = GetDocs ''tasks'' [(''userId'', userId), (''status'', ''COMPLETED'')];
          w1 = (if useFirestore be (Some userId) then
                  (case found of
                     Inl _ \<Rightarrow> send q w
                   | Inr ids \<Rightarrow> (send q w)\<lparr>sent := sent (send q w) @ map (DeleteDoc ''tasks'') ids\<rparr>)
                else w) in
      if useFirestore be (Some userId) \<and> resolved found \<and> resolved deleted then (Inr (), w1)
      else
        (Inr (), w1\<lparr>tf_tasks :=
           filter (\<lambda>t. \<not> (task_userId t = userId \<and> status t = COMPLETED)) (tf_tasks w1)\<rparr>))"

subsection \<open>Contacts\<close>

definition getContacts ::
  "backend \<Rightarrow> EmailContact list outcome \<Rightarrow> string \<Rightarrow> EmailContact list action"
where
  "getContacts be docs userId w =
     (if useFirestore be (Some userId) then
        (case docs of
           Inr ds \<Rightarrow> (Inr ds, send (GetDocs ''contacts'' [(''userId'', userId)]) w)
         | Inl _ \<Rightarrow>
             (Inr (filter (\<lambda>c. contact_userId c = userId) (tf_contacts w)),
              send (GetDocs ''contacts'' [(''userId'', userId)]) w))
      else (Inr (filter (\<lambda>c. contact_userId c = userId) (tf_contacts w)), w))"

definition addContact :: "backend \<Rightarrow> unit outcome \<Rightarrow> EmailContact \<Rightarrow> unit action" where
  "addContact be saved contact w =
     (let w1 = (if useFirestore be (Some (contact_userId contact))
                then send (SetDoc ''contacts'' (contact_id contact)) w else w) in
      if useFirestore be (Some (contact_userId contact)) \<and> resolved saved then (Inr (), w1)
      else (Inr (), w1\<lparr>tf_contacts := tf_contacts w1 @ [contact]\<rparr>))"

definition updateContact :: "backend \<Rightarrow> unit outcome \<Rightarrow> EmailContact \<Rightarrow> unit action" where
  "updateContact be saved contact w =
     (let w1 = (if useFirestore be (Some (contact_userId contact))
                then send (UpdateDoc ''contacts'' (contact_id contact)) w else w) in
      if useFirestore be (Some (contact_userId contact)) \<and> resolved saved then (Inr (), w1)
      else
        (case findIndex (\<lambda>c. contact_id c = contact_id contact) (tf_contacts w1) of
           Some index \<Rightarrow> (Inr (), w1\<lparr>tf_contacts := (tf_contacts w1)[index := contact]\<rparr>)
         | None \<Rightarrow> (Inr (), w1)))"

definition deleteContact :: "backend \<Rightarrow> unit outcome \<Rightarrow> string \<Rightarrow> unit action" where
  "deleteContact be deleted cid w =
     (let w1 = (if isReal be \<and> firestore be
                then send (DeleteDoc ''contacts'' cid) w else w) in
      if isReal be \<and> firestore be \<and> resolved deleted then (Inr (), w1)
      else (Inr (), w1\<lparr>tf_contacts := filter (\<lambda>c. contact_id c \<noteq> cid) (tf_contacts w1)\<rparr>))"

subsection \<open>Templates\<close>

definition getCustomTemplates ::
  "backend \<Rightarrow> PlanTemplate list outcome \<Rightarrow> string \<Rightarrow> PlanTemplate list action"
where
  "getCustomTemplates be docs userId w =
     (if useFirestore be (Some userId) then
        (case docs of
           Inr ds \<Rightarrow> (Inr ds, send (GetDocs ''templates'' [(''userId'', userId)]) w)
         | Inl _ \<Rightarrow>
             (Inr (filter (\<lambda>t. template_userId t = Some userId) (tf_templates w)),
              send (GetDocs ''templates'' [(''userId'', userId)]) w))
      else (Inr (filter (\<lambda>t. template_userId t = Some userId) (tf_templates w)), w))"

text \<open>\<^verbatim>\<open>template.userId && useFirestore(template.userId)\<close>: the first conjunct is part of the second.\<close>

definition addTemplate :: "backend \<Rightarrow> unit outcome \<Rightarrow> PlanTemplate \<Rightarrow> unit action" where
  "addTemplate be saved template w =
     (let w1 = (if useFirestore be (template_userId template)
                then send (SetDoc ''templates'' (template_id template)) w else w) in
      if useFirestore be (template_userId template) \<and> resolved saved then (Inr (), w1)
      else (Inr (), w1\<lparr>tf_templates := tf_templates w1 @ [template]\<rparr>))"

definition deleteTemplate :: "backend \<Rightarrow> unit outcome \<Rightarrow> string \<Rightarrow> unit action" where
  "deleteTemplate be deleted tid w =
     (let w1 = (if isReal be \<and> firestore be
                then send (DeleteDoc ''templates'' tid) w else w) in
      if isReal be \<and> firestore be \<and> resolved deleted then (Inr (), w1)
      else (Inr (), w1\<lparr>tf_templates := filter (\<lambda>t. template_id t \<noteq> tid) (tf_templates w1)\<rparr>))"

subsection \<open>Daily plans\<close>

text \<open>\<^verbatim>\<open>plans.find(...) || null\<close> is \<open>find\<close>; in remote mode the first document found, or null.\<close>

definition getDailyPlan ::
  "backend \<Rightarrow> DailyPlan list outcome \<Rightarrow> string \<Rightarrow> string \<Rightarrow> DailyPlan option action"
where
  "getDailyPlan be docs userId day w =
     (let q = GetDocs ''daily_plans'' [(''userId'', userId), (''date'', day)] in
      if useFirestore be (Some userId) then
        (case docs of
           Inr ds \<Rightarrow> (Inr (case ds of [] \<Rightarrow> None | d # _ \<Rightarrow> Some d), send q w)
         | Inl _ \<Rightarrow>
             (Inr (find (\<lambda>p. plan_userId p = userId \<and> date p = day) (tf_daily_plans w)),
              send q w))
      else (Inr (find (\<lambda>p. plan_userId p = userId \<and> date p = day) (tf_daily_plans w)), w))"

definition saveDailyPlan :: "backend \<Rightarrow> unit outcome \<Rightarrow> DailyPlan \<Rightarrow> unit action" where
  "saveDailyPlan be saved plan w =
     (let w1 = (if useFirestore be (Some (plan_userId plan))
                then send (SetDoc ''daily_plans'' (plan_userId plan @ ''_'' @ date plan)) w
                else w) in
      if useFirestore be (Some (plan_userId plan)) \<and> resolved saved then (Inr (), w1)
      else
        (let plans = tf_daily_plans w1 in
         case findIndex (\<lambda>p. plan_userId p = plan_userId plan \<and> date p = date plan) plans of
           Some index \<Rightarrow> (Inr (), w1\<lparr>tf_daily_plans := plans[index := plan]\<rparr>)
         | None \<Rightarrow> (Inr (), w1\<lparr>tf_daily_plans := plans @ [plan]\<rparr>)))"

subsection \<open>The service as a whole\<close>

text \<open>
  One constructor for each method of \<^verbatim>\<open>db\<close>, holding the method's arguments, the clock
  readings and the outcomes of the remote calls it awaits and of the bare storage write
  it makes; \<open>run\<close> dispatches to the
  method. \<open>reachable\<close> are the worlds the service can be in: it starts on empty local
  storage, and every change of local storage is made by one of its methods.
\<close>

datatype call =
    GetCurrentUser "unit outcome" string
  | UpdateUserProfile "unit outcome" "unit outcome" UserProfile
  | RegisterUser "credential outcome" "unit outcome" "unit outcome" string UserProfile
  | LoginUser "credential outcome" "unit outcome" string string string
  | ResetPassword "unit outcome" string
  | SocialLogin "credential outcome" "unit outcome" "unit outcome" string string provider
  | Logout "unit outcome"
  | GetTasks "Task list outcome" string
  | AddTask "unit outcome" Task
  | UpdateTask "unit outcome" Task
  | DeleteTask "unit outcome" string
  | ClearCompletedTasks "string list outcome" "unit outcome" string
  | GetContacts "EmailContact list outcome" string
  | AddContact "unit outcome" EmailContact
  | UpdateContact "unit outcome" EmailContact
  | DeleteContact "unit outcome" string
  | GetCustomTemplates "PlanTemplate list outcome" string
  | AddTemplate "unit outcome" PlanTemplate
  | DeleteTemplate "unit outcome" string
  | GetDailyPlan "DailyPlan list outcome" string string
  | SaveDailyPlan "unit outcome" DailyPlan

datatype reply =
    Void
  | Profile UserProfile
  | Tasks "Task list"
  | Contacts "EmailContact list"
  | Templates "PlanTemplate list"
  | Plan "DailyPlan option"

definition returning :: "('a \<Rightarrow> reply) \<Rightarrow> (exn + 'a) \<times> world \<Rightarrow> (exn + reply) \<times> world" where
  "returning f r = (map_sum (\<lambda>e. e) f (fst r), snd r)"

fun run :: "backend \<Rightarrow> call \<Rightarrow> reply action" where
  "run be (GetCurrentUser written nowIso) w = returning Profile (getCurrentUser written nowIso w)"
| "run be (UpdateUserProfile written saved user) w =
     returning Profile (updateUserProfile be written saved user w)"
| "run be (RegisterUser created saved written nowMs user) w =
     returning Profile (registerUser be created saved written nowMs user w)"
| "run be (LoginUser signedIn written nowIso mail pass) w =
     returning Profile (loginUser be signedIn written nowIso mail pass w)"
| "run be (ResetPassword mailed mail) w = returning (\<lambda>_. Void) (resetPassword be mailed mail w)"
| "run be (SocialLogin popup saved written nowMs nowIso p) w =
     returning Profile (socialLogin be popup saved written nowMs nowIso p w)"
| "run be (Logout signedOut) w = returning (\<lambda>_. Void) (logout be signedOut w)"
| "run be (GetTasks docs userId) w = returning Tasks (getTasks be docs userId w)"
| "run be (AddTask saved task) w = returning (\<lambda>_. Void) (addTask be saved task w)"
| "run be (UpdateTask saved task) w = returning (\<lambda>_. Void) (updateTask be saved task w)"
| "run be (DeleteTask deleted taskId) w = returning (\<lambda>_. Void) (deleteTask be deleted taskId w)"
| "run be (ClearCompletedTasks found deleted userId) w =
     returning (\<lambda>_. Void) (clearCompletedTasks be found deleted userId w)"
| "run be (GetContacts docs userId) w = returning Contacts (getContacts be docs userId w)"
| "run be (AddContact saved contact) w = returning (\<lambda>_. Void) (addContact be saved contact w)"
| "run be (UpdateContact saved contact) w =
     returning (\<lambda>_. Void) (updateContact be saved contact w)"
| "run be (DeleteContact deleted cid) w = returning (\<lambda>_. Void) (deleteContact be deleted cid w)"
| "run be (GetCustomTemplates docs userId) w =
     returning Templates (getCustomTemplates be docs userId w)"
| "run be (AddTemplate saved template) w =
     returning (\<lambda>_. Void) (addTemplate be saved template w)"
| "run be (DeleteTemplate deleted tid) w =
     returning (\<lambda>_. Void) (deleteTemplate be deleted tid w)"
| "run be (GetDailyPlan docs userId day) w = returning Plan (getDailyPlan be docs userId day w)"
| "run be (SaveDailyPlan saved plan) w = returning (\<lambda>_. Void) (saveDailyPlan be saved plan w)"

definition fresh :: world where
  "fresh = \<lparr>tf_tasks = [], tf_contacts = [], tf_templates = [], tf_daily_plans = [],
            tf_users = [], tf_current_user_profile = None, sent = []\<rparr>"


text \<open>An exception leaves the operation.\<close>

abbreviation throws :: "(exn + 'a) \<times> world \<Rightarrow> bool" where
  "throws r \<equiv> isl (fst r)"

section \<open>Task grouping and the figures derived from it (App.tsx, AnalyticsView)\<close>

subsection \<open>Dates, numbers and sorting of the JavaScript runtime\<close>

text \<open>
  A \<^verbatim>\<open>Date\<close> is its time value: the milliseconds since the epoch, or \<^verbatim>\<open>NaN\<close> for an
  Invalid Date (\<open>None\<close>). \<^verbatim>\<open>new Date(s)\<close> on a string is the runtime's parser, the
  argument \<open>parse\<close> of the functions below; \<^verbatim>\<open>new Date()\<close> is the argument \<open>now\<close>, which is
  always valid. Local time is UTC plus the offset of the zone at that instant, \<open>tz t\<close>
  milliseconds. \<^verbatim>\<open>toDateString()\<close> prints the local calendar date (week day, month, day,
  year), so two valid dates print the same string exactly when they lie on the same local
  calendar day, counted here in days since the epoch; an Invalid Date prints
  \<^verbatim>\<open>Invalid Date\<close>.
\<close>

datatype dateString = Invalid_Date | Day int

definition localDay :: "(int \<Rightarrow> int) \<Rightarrow> int \<Rightarrow> int" where
  "localDay tz t = (t + tz t) div 86400000"

definition toDateString :: "(int \<Rightarrow> int) \<Rightarrow> int option \<Rightarrow> dateString" where
  "toDateString tz d = (case d of None \<Rightarrow> Invalid_Date | Some t \<Rightarrow> Day (localDay tz t))"

text \<open>\<^verbatim>\<open>d1 < d2\<close> on dates compares the time values; a comparison with \<^verbatim>\<open>NaN\<close> is false.\<close>

definition date_less :: "int option \<Rightarrow> int option \<Rightarrow> bool" where
  "date_less d1 d2 = (case d1 of None \<Rightarrow> False
                      | Some a \<Rightarrow> (case d2 of None \<Rightarrow> False | Some b \<Rightarrow> a < b))"

text \<open>\<^verbatim>\<open>d1.getTime() - d2.getTime()\<close>: \<^verbatim>\<open>NaN\<close> when either date is invalid.\<close>

definition time_diff :: "int option \<Rightarrow> int option \<Rightarrow> int option" where
  "time_diff d1 d2 = (case d1 of None \<Rightarrow> None
                      | Some a \<Rightarrow> (case d2 of None \<Rightarrow> None | Some b \<Rightarrow> Some (a - b)))"

text \<open>
  \<^verbatim>\<open>Array.prototype.sort\<close> with a comparator. The language maps a comparator result
  \<^verbatim>\<open>NaN\<close> to \<^verbatim>\<open>+0\<close> (\<open>sortCompare\<close>) and requires the sort to be stable. The model is the
  stable insertion sort. For a consistent comparator every conforming sort returns the
  array it returns. A comparator that returns \<^verbatim>\<open>NaN\<close> for some pairs is not consistent;
  the language then leaves the order to the implementation, requiring a permutation
  only, and an engine may return another order than this sort does. The theorems below
  use no more than the permutation in that case; the two examples that show such an
  array after the sort (a bucket of two tasks, and the unsorted bucket of three) show
  the order V8 returns as well, which finds each of them to be one ascending run.
\<close>

definition sortCompare :: "('a \<Rightarrow> 'a \<Rightarrow> int option) \<Rightarrow> 'a \<Rightarrow> 'a \<Rightarrow> int" where
  "sortCompare comparefn x y = (case comparefn x y of None \<Rightarrow> 0 | Some v \<Rightarrow> v)"

fun insertSorted :: "('a \<Rightarrow> 'a \<Rightarrow> int option) \<Rightarrow> 'a \<Rightarrow> 'a list \<Rightarrow> 'a list" where
  "insertSorted comparefn x [] = [x]"
| "insertSorted comparefn x (y # ys) =
     (if sortCompare comparefn x y \<le> 0 then x # y # ys
      else y # insertSorted comparefn x ys)"

definition sortWith :: "('a \<Rightarrow> 'a \<Rightarrow> int option) \<Rightarrow> 'a list \<Rightarrow> 'a list" where
  "sortWith comparefn xs = foldr (insertSorted comparefn) xs []"

text \<open>
  \<^verbatim>\<open>s.includes(sub)\<close>: \<open>sub\<close> occurs in \<open>s\<close> as a contiguous substring.
  \<^verbatim>\<open>s.toLowerCase()\<close> is the case mapping of the runtime, the argument \<open>toLowerCase\<close> of the
  functions below.
\<close>

fun includes_str :: "string \<Rightarrow> string \<Rightarrow> bool" where
  "includes_str [] sub = (sub = [])"
| "includes_str (c # cs) sub = (take (length sub) (c # cs) = sub \<or> includes_str cs sub)"

text \<open>
  Numbers are IEEE 754 doubles. The numbers computed below are array lengths (integers
  below \<open>2 ^ 32\<close>, which are doubles), their quotients and the products with 100: none
  is negative, and all but 0 lie in the range of the normal doubles. On that range
  \<open>double q\<close> is the double nearest to the rational \<open>q\<close>, the one with the even
  significand of two equally near: the result of \<^verbatim>\<open>a / b\<close> is \<open>double (a / b)\<close>, that of
  \<^verbatim>\<open>a * b\<close> is \<open>double (a * b)\<close>. \<open>exponent q\<close> is the integer \<open>e\<close> with
  \<open>2 powi e \<le> q < 2 powi (e + 1)\<close>. \<^verbatim>\<open>Math.round\<close> returns the nearest integer, the
  larger one of two equally near.
\<close>

definition roundTiesToEven :: "rat \<Rightarrow> int" where
  "roundTiesToEven q =
     (let f = \<lfloor>q\<rfloor>; r = q - of_int f in
      if r < 1 / 2 then f else if 1 / 2 < r then f + 1 else if even f then f else f + 1)"

definition exponent :: "rat \<Rightarrow> int" where
  "exponent q =
     (let k = bitlen (fst (quotient_of q)) - bitlen (snd (quotient_of q)) in
      if 2 powi k \<le> q then k else k - 1)"

definition double :: "rat \<Rightarrow> rat" where
  "double q =
     (if q \<le> 0 then 0
      else of_int (roundTiesToEven (q * 2 powi (52 - exponent q))) * 2 powi (exponent q - 52))"

definition Math_round :: "rat \<Rightarrow> int" where
  "Math_round x = \<lfloor>x + 1 / 2\<rfloor>"

subsection \<open>groupTasks\<close>

record groups =
  overdue :: "Task list"
  today :: "Task list"
  upcoming :: "Task list"
  completed :: "Task list"

text \<open>The search filter: title or description contains the query, letter case ignored.\<close>

definition matchesQuery :: "(string \<Rightarrow> string) \<Rightarrow> string \<Rightarrow> Task \<Rightarrow> bool" where
  "matchesQuery toLowerCase searchQuery t =
     (includes_str (toLowerCase (title t)) (toLowerCase searchQuery) \<or>
      includes_str (toLowerCase (description t)) (toLowerCase searchQuery))"

text \<open>The body of the \<^verbatim>\<open>forEach\<close> callback: the task is pushed onto one of the four arrays.\<close>

definition place :: "(string \<Rightarrow> int option) \<Rightarrow> (int \<Rightarrow> int) \<Rightarrow> int \<Rightarrow> Task \<Rightarrow> groups \<Rightarrow> groups" where
  "place parse tz now task g =
     (let todayStr = toDateString tz (Some now) in
      if status task = COMPLETED then g\<lparr>completed := completed g @ [task]\<rparr>
      else
        (let due = parse (dueDate task) in
         if date_less due (Some now) \<and> toDateString tz due \<noteq> todayStr
           then g\<lparr>overdue := overdue g @ [task]\<rparr>
         else if toDateString tz due = todayStr
           then g\<lparr>today := today g @ [task]\<rparr>
         else g\<lparr>upcoming := upcoming g @ [task]\<rparr>))"

definition sorter :: "(string \<Rightarrow> int option) \<Rightarrow> Task \<Rightarrow> Task \<Rightarrow> int option" where
  "sorter parse a b = time_diff (parse (dueDate a)) (parse (dueDate b))"

definition byCreation :: "(string \<Rightarrow> int option) \<Rightarrow> Task \<Rightarrow> Task \<Rightarrow> int option" where
  "byCreation parse a b = time_diff (parse (createdAt b)) (parse (createdAt a))"

definition groupTasks ::
  "(string \<Rightarrow> string) \<Rightarrow> (string \<Rightarrow> int option) \<Rightarrow> (int \<Rightarrow> int) \<Rightarrow> int \<Rightarrow> string \<Rightarrow> Task list
     \<Rightarrow> groups"
where
  "groupTasks toLowerCase parse tz now searchQuery tasks =
     (let filteredTasks = filter (matchesQuery toLowerCase searchQuery) tasks;
          g = fold (place parse tz now) filteredTasks
                \<lparr>overdue = [], today = [], upcoming = [], completed = []\<rparr>
      in \<lparr>overdue = sortWith (sorter parse) (overdue g),
          today = sortWith (sorter parse) (today g),
          upcoming = sortWith (sorter parse) (upcoming g),
          completed = sortWith (byCreation parse) (completed g)\<rparr>)"

subsection \<open>getTodayProgress\<close>

definition getTodayProgress ::
  "(string \<Rightarrow> int option) \<Rightarrow> (int \<Rightarrow> int) \<Rightarrow> int \<Rightarrow> Task list \<Rightarrow> int"
where
  "getTodayProgress parse tz now tasks =
     (let todayStr = toDateString tz (Some now);
          todayTasks = filter (\<lambda>t. toDateString tz (parse (dueDate t)) = todayStr) tasks
      in if length todayTasks = 0 then 0
         else
           (let completedToday = length (filter (\<lambda>t. status t = COMPLETED) todayTasks) in
            Math_round (double (double (of_nat completedToday / of_nat (length todayTasks))
                                  * 100))))"

subsection \<open>getWeeklyHeatmap\<close>

text \<open>
  \<^verbatim>\<open>d.setDate(d.getDate() - i)\<close> moves \<open>d\<close> to the local calendar day \<open>i\<close> days before
  today; only its \<^verbatim>\<open>toDateString()\<close> and its \<^verbatim>\<open>getDay()\<close> are used. Day 0 of the epoch
  was a Thursday. \<^verbatim>\<open>Math.min\<close> returns one of its two arguments.
\<close>

record heatmapEntry =
  day :: string
  "value" :: rat
  count :: nat






section \<open>Notions the properties are stated with\<close>

subsection \<open>The data service\<close>

text \<open>
  A call of one of the delete methods runs against local storage when no Firestore
  handle exists or when the remote call rejects.
\<close>

definition ranLocal :: "backend \<Rightarrow> 'a outcome \<Rightarrow> bool" where
  "ranLocal be r = (\<not> (isReal be \<and> firestore be \<and> resolved r))"

text \<open>The local storage of a world: the world without the record of remote requests.\<close>

definition storage :: "world \<Rightarrow> world" where
  "storage w = w\<lparr>sent := []\<rparr>"



text \<open>
  The user a call names as the owner of the entity it works on, for the task, contact,
  template and daily-plan methods that pass one to \<^verbatim>\<open>useFirestore\<close>. The three delete
  methods, which take an id alone, name none.
\<close>

fun namesOwner :: "call \<Rightarrow> bool" where
  "namesOwner (GetTasks docs userId) = True"
| "namesOwner (AddTask saved task) = True"
| "namesOwner (UpdateTask saved task) = True"
| "namesOwner (ClearCompletedTasks found deleted userId) = True"
| "namesOwner (GetContacts docs userId) = True"
| "namesOwner (AddContact saved contact) = True"
| "namesOwner (UpdateContact saved contact) = True"
| "namesOwner (GetCustomTemplates docs userId) = True"
| "namesOwner (AddTemplate saved template) = True"
| "namesOwner (GetDailyPlan docs userId d) = True"
| "namesOwner (SaveDailyPlan saved plan) = True"
| "namesOwner c = False"

fun ownerOf :: "call \<Rightarrow> string option" where
  "ownerOf (GetTasks docs userId) = Some userId"
| "ownerOf (AddTask saved task) = Some (task_userId task)"
| "ownerOf (UpdateTask saved task) = Some (task_userId task)"
| "ownerOf (ClearCompletedTasks found deleted userId) = Some userId"
| "ownerOf (GetContacts docs userId) = Some userId"
| "ownerOf (AddContact saved contact) = Some (contact_userId contact)"
| "ownerOf (UpdateContact saved contact) = Some (contact_userId contact)"
| "ownerOf (GetCustomTemplates docs userId) = Some userId"
| "ownerOf (AddTemplate saved template) = template_userId template"
| "ownerOf (GetDailyPlan docs userId d) = Some userId"
| "ownerOf (SaveDailyPlan saved plan) = Some (plan_userId plan)"
| "ownerOf c = None"

text \<open>
  The exception a call lets escape when its bare storage write succeeds, read off the
  source: the four methods that await a Firebase Auth call outside any \<^verbatim>\<open>try\<close> pass its
  rejection on, and the local simulation of \<^verbatim>\<open>registerUser\<close> and \<^verbatim>\<open>loginUser\<close> throws its
  own two errors. \<open>storageFull\<close> tells that the bare \<^verbatim>\<open>localStorage.setItem\<close> a call
  carries fails; the calls that make no such write carry none.
\<close>

fun raised :: "backend \<Rightarrow> world \<Rightarrow> call \<Rightarrow> exn option" where
  "raised be w (RegisterUser created saved written nowMs user) =
     (if isReal be \<and> auth be then (case created of Inl e \<Rightarrow> Some e | Inr _ \<Rightarrow> None)
      else if find (\<lambda>u. email u = email user) (tf_users w) \<noteq> None
        then Some (Error ''User already exists'') else None)"
| "raised be w (LoginUser signedIn written nowIso mail pass) =
     (if isReal be \<and> auth be then (case signedIn of Inl e \<Rightarrow> Some e | Inr _ \<Rightarrow> None)
      else if mail = ''demo@example.com'' \<and> pass = ''password'' then None
      else if find (\<lambda>u. email u = mail \<and> password u = Some pass) (tf_users w) = None
        then Some (Error ''Invalid credentials'') else None)"
| "raised be w (ResetPassword mailed mail) =
     (if isReal be \<and> auth be then (case mailed of Inl e \<Rightarrow> Some e | Inr _ \<Rightarrow> None) else None)"
| "raised be w (SocialLogin popup saved written nowMs nowIso p) =
     (if isReal be \<and> auth be then (case popup of Inl e \<Rightarrow> Some e | Inr _ \<Rightarrow> None) else None)"
| "raised be w c = None"

fun storageFull :: "call \<Rightarrow> bool" where
  "storageFull (GetCurrentUser written nowIso) = isl written"
| "storageFull (UpdateUserProfile written saved user) = isl written"
| "storageFull (RegisterUser created saved written nowMs user) = isl written"
| "storageFull (LoginUser signedIn written nowIso mail pass) = isl written"
| "storageFull (SocialLogin popup saved written nowMs nowIso p) = isl written"
| "storageFull c = False"

fun isLogout :: "call \<Rightarrow> bool" where
  "isLogout (Logout signedOut) = True"
| "isLogout c = False"

subsection \<open>Example values\<close>

definition localBackend :: backend where
  "localBackend = \<lparr>isReal = False, firestore = False, auth = False\<rparr>"

definition remoteBackend :: backend where
  "remoteBackend = \<lparr>isReal = True, firestore = True, auth = True\<rparr>"

definition guestTask :: Task where
  "guestTask = \<lparr>task_id = ''t1'', task_userId = ''guest-user'', title = ''Buy milk'',
      description = ''two litres'', dueDate = ''2024-05-02T09:00:00.000Z'', priority = MEDIUM,
      status = TODO, createdAt = ''2024-05-01T08:00:00.000Z'', calendarEventUrl = None,
      subtasks = None\<rparr>"

definition guestContact :: EmailContact where
  "guestContact = \<lparr>contact_id = ''c1'', contact_userId = ''guest-user'',
      address = ''ann@example.com'', isActive = True\<rparr>"

definition guestTemplate :: PlanTemplate where
  "guestTemplate = \<lparr>template_id = ''p1'', template_userId = Some ''guest-user'',
      label = ''Deep work'', iconKey = Icon_brain, prompt = ''Plan two focus blocks'',
      isCustom = Some True\<rparr>"

definition bobTask :: Task where
  "bobTask = \<lparr>task_id = ''t2'', task_userId = ''user_bob'', title = ''Write report'',
      description = ''quarterly'', dueDate = ''2024-05-03T09:00:00.000Z'', priority = HIGH,
      status = IN_PROGRESS, createdAt = ''2024-05-01T10:00:00.000Z'', calendarEventUrl = None,
      subtasks = None\<rparr>"

definition ann :: UserProfile where
  "ann = \<lparr>user_id = ''user_ann'', name = ''Ann'', email = ''ann@example.com'',
      password = Some ''secret'', joinedAt = ''2024-05-01T08:00:00.000Z''\<rparr>"



definition exampleTask :: "string \<Rightarrow> string \<Rightarrow> TaskStatus \<Rightarrow> string \<Rightarrow> Task" where
  "exampleTask tid due st created =
     \<lparr>task_id = tid, task_userId = ''guest-user'', title = ''Task '' @ tid, description = '''',
      dueDate = due, priority = MEDIUM, status = st, createdAt = created,
      calendarEventUrl = None, subtasks = None\<rparr>"

text \<open>
  The time values of the ISO strings the examples use, as \<^verbatim>\<open>new Date(s)\<close> gives them; any
  other string is taken not to parse. The examples run in UTC, at noon of 2 May 2024.
\<close>

definition isoParse :: "string \<Rightarrow> int option" where
  "isoParse = map_of
     [(''2024-04-30T10:00:00.000Z'', 1714471200000),
      (''2024-05-01T10:00:00.000Z'', 1714557600000),
      (''2024-05-01T12:00:00.000Z'', 1714564800000),
      (''2024-05-02T08:00:00.000Z'', 1714636800000),
      (''2024-05-02T18:00:00.000Z'', 1714672800000),
      (''2024-05-03T12:00:00.000Z'', 1714737600000),
      (''2024-05-05T09:00:00.000Z'', 1714899600000),
      (''2024-05-10T09:00:00.000Z'', 1715331600000)]"

text \<open>
  The case mapping on ASCII strings, which the titles, descriptions and queries of the
  examples are.
\<close>

definition asciiLower :: "string \<Rightarrow> string" where
  "asciiLower s =
     map (\<lambda>c. let n = (of_char c :: nat) in if 65 \<le> n \<and> n \<le> 90 then char_of (n + 32) else c) s"

definition utc :: "int \<Rightarrow> int" where
  "utc t = 0"

definition noon :: int where
  "noon = 1714651200000"

subsection \<open>Task grouping\<close>

text \<open>
  The bucket of a task as the specification words it: a completed task is in
  \<open>Completed\<close>; a task that is not completed is in \<open>Overdue\<close> when its due timestamp is
  before now and its due calendar date is not today's, in \<open>Today\<close> when its due calendar
  date is today's, and in \<open>Upcoming\<close> in every other case.
\<close>

datatype bucket = Overdue | Today | Upcoming | Completed

definition bucketOf :: "(string \<Rightarrow> int option) \<Rightarrow> (int \<Rightarrow> int) \<Rightarrow> int \<Rightarrow> Task \<Rightarrow> bucket" where
  "bucketOf parse tz now t =
     (if status t = COMPLETED then Completed
      else
        (case parse (dueDate t) of
           None \<Rightarrow> Upcoming
         | Some due \<Rightarrow>
             if due < now \<and> localDay tz due \<noteq> localDay tz now then Overdue
             else if localDay tz due = localDay tz now then Today
             else Upcoming))"

text \<open>The array of \<open>groups\<close> that holds a bucket.\<close>

fun bucketArray :: "groups \<Rightarrow> bucket \<Rightarrow> Task list" where
  "bucketArray g Overdue = overdue g"
| "bucketArray g Today = today g"
| "bucketArray g Upcoming = upcoming g"
| "bucketArray g Completed = completed g"

text \<open>Local clock time never runs backwards: a later instant is not on an earlier calendar day.\<close>

definition clockMonotone :: "(int \<Rightarrow> int) \<Rightarrow> bool" where
  "clockMonotone tz = (\<forall>s t. s \<le> t \<longrightarrow> s + tz s \<le> t + tz t)"

text \<open>
  The orders of the buckets. Two tasks are in ascending order of due timestamp when the
  first is due no later than the second, in descending order of creation when the first
  was created no earlier; a task without a timestamp is in order with every task.
\<close>

definition dueAscending :: "(string \<Rightarrow> int option) \<Rightarrow> Task \<Rightarrow> Task \<Rightarrow> bool" where
  "dueAscending parse a b =
     (case parse (dueDate a) of None \<Rightarrow> True
      | Some x \<Rightarrow> (case parse (dueDate b) of None \<Rightarrow> True | Some y \<Rightarrow> x \<le> y))"

definition createdDescending :: "(string \<Rightarrow> int option) \<Rightarrow> Task \<Rightarrow> Task \<Rightarrow> bool" where
  "createdDescending parse a b =
     (case parse (createdAt a) of None \<Rightarrow> True
      | Some x \<Rightarrow> (case parse (createdAt b) of None \<Rightarrow> True | Some y \<Rightarrow> y \<le> x))"

definition allParse :: "(string \<Rightarrow> int option) \<Rightarrow> (Task \<Rightarrow> string) \<Rightarrow> Task list \<Rightarrow> bool" where
  "allParse parse field ts = list_all (\<lambda>t. parse (field t) \<noteq> None) ts"

subsection \<open>Example task lists\<close>

definition dayTasks :: "Task list" where
  "dayTasks =
     [exampleTask ''done'' ''2024-05-01T12:00:00.000Z'' COMPLETED ''2024-04-30T10:00:00.000Z'',
      exampleTask ''tomorrow'' ''2024-05-03T12:00:00.000Z'' TODO ''2024-05-01T10:00:00.000Z'',
      exampleTask ''late'' ''2024-05-01T12:00:00.000Z'' TODO ''2024-04-30T10:00:00.000Z'',
      exampleTask ''morning'' ''2024-05-02T08:00:00.000Z'' IN_PROGRESS ''2024-05-01T10:00:00.000Z'',
      exampleTask ''undated'' ''soon'' TODO ''2024-05-01T10:00:00.000Z'']"

definition weekTasks :: "Task list" where
  "weekTasks =
     [exampleTask ''c1'' ''2024-05-01T12:00:00.000Z'' COMPLETED ''2024-04-30T10:00:00.000Z'',
      exampleTask ''u1'' ''2024-05-10T09:00:00.000Z'' TODO ''2024-05-01T10:00:00.000Z'',
      exampleTask ''u2'' ''2024-05-05T09:00:00.000Z'' TODO ''2024-05-01T10:00:00.000Z'',
      exampleTask ''u3'' ''2024-05-05T09:00:00.000Z'' IN_PROGRESS ''2024-04-30T10:00:00.000Z'',
      exampleTask ''c2'' ''2024-05-03T12:00:00.000Z'' COMPLETED ''2024-05-01T10:00:00.000Z'']"

definition threeToday :: "Task list" where
  "threeToday =
     [exampleTask ''a'' ''2024-05-02T08:00:00.000Z'' COMPLETED ''2024-05-01T10:00:00.000Z'',
      exampleTask ''b'' ''2024-05-02T18:00:00.000Z'' TODO ''2024-05-01T10:00:00.000Z'',
      exampleTask ''c'' ''2024-05-03T12:00:00.000Z'' TODO ''2024-05-01T10:00:00.000Z'',
      exampleTask ''d'' ''2024-05-02T08:00:00.000Z'' IN_PROGRESS ''2024-04-30T10:00:00.000Z'']"

text \<open>Forty tasks due today, the first twenty-three of them completed.\<close>

definition fortyToday :: "Task list" where
  "fortyToday =
     map (\<lambda>i. exampleTask (replicate i (CHR ''x'')) ''2024-05-02T08:00:00.000Z'' COMPLETED
                 ''2024-05-01T10:00:00.000Z'') [1..<24]
     @ map (\<lambda>i. exampleTask (replicate i (CHR ''y'')) ''2024-05-02T18:00:00.000Z'' TODO
                   ''2024-05-01T10:00:00.000Z'') [1..<18]"

subsection \<open>Progress and heatmap\<close>

text \<open>
  A timestamp string falls on a local calendar day when it parses to an instant of that
  day. The activity of a day is the number of tasks created or due on it.
\<close>

definition fallsOn :: "(string \<Rightarrow> int option) \<Rightarrow> (int \<Rightarrow> int) \<Rightarrow> int \<Rightarrow> string \<Rightarrow> bool" where
  "fallsOn parse tz d s = (case parse s of None \<Rightarrow> False | Some t \<Rightarrow> localDay tz t = d)"


text \<open>The tasks due on a day, and the completed tasks of a list.\<close>

definition dueOn :: "(string \<Rightarrow> int option) \<Rightarrow> (int \<Rightarrow> int) \<Rightarrow> int \<Rightarrow> Task list \<Rightarrow> Task list" where
  "dueOn parse tz d tasks = filter (\<lambda>t. fallsOn parse tz d (dueDate t)) tasks"

definition completedOf :: "Task list \<Rightarrow> Task list" where
  "completedOf ts = filter (\<lambda>t. status t = COMPLETED) ts"

section \<open>Doubles: proofs\<close>

text \<open>
  \<open>exponent\<close> is the binary exponent. Rounding to a double changes a positive number by
  at most the fraction \<open>1 / 2 ^ 53\<close> of it, and changes no number \<open>m * 2 powi j\<close> whose
  \<open>m\<close> fits the 53 bits of the significand.
\<close>

lemma roundTiesToEven_near: "\<bar>of_int (roundTiesToEven s) - s\<bar> \<le> 1 / 2"
proof -
  have "of_int \<lfloor>s\<rfloor> \<le> s" "s < of_int \<lfloor>s\<rfloor> + 1"
    by linarith+
  then show ?thesis
    unfolding roundTiesToEven_def Let_def by (auto simp: abs_le_iff) 
qed


lemma bitlen_powi_bounds:
  assumes "0 < (x::int)"
  shows "(2::rat) powi (bitlen x - 1) \<le> of_int x" "of_int x < (2::rat) powi bitlen x"
proof -
  from assms have b: "1 \<le> bitlen x"
    by (simp add: bitlen_alt_def)
  from bitlen_bounds[OF assms] have "2 ^ nat (bitlen x - 1) \<le> x" "x < 2 ^ nat (bitlen x)"
    by auto
  then have "(of_int (2 ^ nat (bitlen x - 1)) :: rat) \<le> of_int x" "(of_int x :: rat) < of_int (2 ^ nat (bitlen x))"
    by (simp_all only: of_int_le_iff of_int_less_iff)
  with b show "(2::rat) powi (bitlen x - 1) \<le> of_int x" "of_int x < (2::rat) powi bitlen x"
    by (simp_all add: power_int_def)
qed

lemma exponent_bounds:
  assumes "0 < q"
  shows "2 powi exponent q \<le> q" and "q < 2 powi (exponent q + 1)"
proof -
  obtain a b where ab: "quotient_of q = (a, b)" by (cases "quotient_of q")
  then have b: "0 < b" and q: "q = of_int a / of_int b"
    by (auto dest: quotient_of_denom_pos quotient_of_div)
  from assms q b have a: "0 < a"
    by (simp add: zero_less_divide_iff)
  define k where "k = bitlen a - bitlen b"
  have e: "exponent q = (if 2 powi k \<le> q then k else k - 1)"
    by (simp add: exponent_def ab k_def)
  have rb: "(0::rat) < of_int b" using b by simp
  have lo: "2 powi (k - 1) \<le> q"
  proof -
    have "k - 1 = (bitlen a - 1) - bitlen b" by (simp add: k_def)
    moreover have "(2::rat) powi ((bitlen a - 1) - bitlen b) = 2 powi (bitlen a - 1) / 2 powi bitlen b"
      by (rule power_int_diff) simp
    ultimately have "(2::rat) powi (k - 1) = 2 powi (bitlen a - 1) / 2 powi bitlen b"
      by (simp only:)
    also have "\<dots> \<le> of_int a / 2 powi bitlen b"
      using bitlen_powi_bounds(1)[OF a] by (intro divide_right_mono) auto
    also have "\<dots> \<le> of_int a / of_int b"
      using bitlen_powi_bounds(2)[OF b] a rb by (intro divide_left_mono) auto
    finally show ?thesis by (simp add: q)
  qed
  have hi: "q < 2 powi (k + 1)"
  proof -
    have "q = of_int a / of_int b" by (rule q)
    also have "\<dots> < 2 powi bitlen a / of_int b"
      using bitlen_powi_bounds(2)[OF a] rb by (intro divide_strict_right_mono) auto
    also have "\<dots> \<le> 2 powi bitlen a / 2 powi (bitlen b - 1)"
      using bitlen_powi_bounds(1)[OF b] rb by (intro divide_left_mono) (auto intro: mult_pos_pos)
    also have "\<dots> = 2 powi (bitlen a - (bitlen b - 1))"
      by (rule power_int_diff[symmetric]) simp
    also have "\<dots> = 2 powi (k + 1)"
      by (rule arg_cong[where f = "\<lambda>i. 2 powi i"]) (simp add: k_def)
    finally show ?thesis .
  qed
  show "2 powi exponent q \<le> q" using lo by (simp add: e)
  show "q < 2 powi (exponent q + 1)" using hi by (auto simp: e not_le)
qed


lemma exponent_unique:
  assumes "0 < q" and "2 powi e \<le> q" and "q < 2 powi (e + 1)"
  shows "exponent q = e"
proof (rule antisym)
  show "exponent q \<le> e"
  proof (rule ccontr)
    assume "\<not> exponent q \<le> e"
    then have "e + 1 \<le> exponent q" by simp
    then have "(2::rat) powi (e + 1) \<le> 2 powi exponent q"
      by (intro power_int_increasing) simp_all
    with exponent_bounds(1)[OF assms(1)] assms(3) show False by simp
  qed
  show "e \<le> exponent q"
  proof (rule ccontr)
    assume "\<not> e \<le> exponent q"
    then have "exponent q + 1 \<le> e" by simp
    then have "(2::rat) powi (exponent q + 1) \<le> 2 powi e"
      by (intro power_int_increasing) simp_all
    with exponent_bounds(2)[OF assms(1)] assms(2) show False by simp
  qed
qed

lemma double_error:
  assumes "0 < q"
  shows "\<bar>double q - q\<bar> \<le> q / 2 ^ 53"
proof -
  define e where "e = exponent q"
  define s where "s = q * 2 powi (52 - e)"
  define m where "m = roundTiesToEven s"
  have unit: "(2::rat) powi (52 - e) * 2 powi (e - 52) = 1"
    by (simp flip: power_int_add)
  have d: "double q = of_int m * 2 powi (e - 52)"
    using assms by (simp add: double_def e_def s_def m_def)
  have "s * 2 powi (e - 52) = q * (2 powi (52 - e) * 2 powi (e - 52))"
    by (simp add: s_def)
  then have q: "q = s * 2 powi (e - 52)"
    by (simp add: unit)
  have "double q - q = (of_int m - s) * 2 powi (e - 52)"
    by (subst (2) q) (simp add: d algebra_simps)
  then have "\<bar>double q - q\<bar> = \<bar>of_int m - s\<bar> * 2 powi (e - 52)"
    by (simp add: abs_mult)
  also have "\<dots> \<le> 1 / 2 * 2 powi (e - 52)"
    using roundTiesToEven_near[of s] by (intro mult_right_mono) (simp_all add: m_def)
  also have "\<dots> = 2 powi e / 2 ^ 53"
    by (simp add: power_int_diff)
  also have "\<dots> \<le> q / 2 ^ 53"
    using exponent_bounds(1)[OF assms] by (intro divide_right_mono) (simp_all add: e_def)
  finally show ?thesis .
qed



lemma double_zero: "double 0 = 0"
  by (simp add: double_def)

lemma double_pos:
  assumes "0 < q"
  shows "0 < double q"
proof -
  have "q / 2 ^ 53 < q" using assms by (simp add: field_simps)
  with double_error[OF assms] show ?thesis by linarith
qed

lemma percent_error:
  fixes r :: rat
  assumes "0 < r" and "r \<le> 1"
  shows "\<bar>double (double r * 100) - 100 * r\<bar> \<le> 300 / 2 ^ 53"
proof -
  define u :: rat where "u = 1 / 2 ^ 53"
  define d where "d = double r"
  define p where "p = double (d * 100)"
  have u: "0 < u" "u \<le> 1" by (simp_all add: u_def)
  have e1: "\<bar>d - r\<bar> \<le> r * u"
    using double_error[OF assms(1)] by (simp add: d_def u_def)
  have dpos: "0 < d" unfolding d_def using assms(1) by (rule double_pos)
  then have "0 < d * 100" by simp
  from double_error[OF this] have e2: "\<bar>p - 100 * d\<bar> \<le> 100 * d * u"
    by (simp add: p_def u_def mult.commute)
  have ru: "r * u \<le> u" using assms u by (simp add: mult_left_le_one_le)
  have "d \<le> r + r * u" using e1 by (simp add: abs_le_iff)
  with ru assms(2) have d2: "d \<le> 2" using u by linarith
  then have "100 * d * u \<le> 200 * u" using u by simp
  with e2 have e3: "\<bar>p - 100 * d\<bar> \<le> 200 * u" by linarith
  have "\<bar>100 * d - 100 * r\<bar> \<le> 100 * u"
    using e1 ru by linarith
  moreover have "\<bar>p - 100 * r\<bar> \<le> \<bar>p - 100 * d\<bar> + \<bar>100 * d - 100 * r\<bar>"
    by linarith
  ultimately have "\<bar>p - 100 * r\<bar> \<le> 200 * u + 100 * u"
    using e3 by linarith
  then show ?thesis by (simp add: p_def d_def u_def)
qed

lemma progress_round:
  fixes c n :: nat
  assumes "0 < n" and "c \<le> n" and "n < 2 ^ 32"
    and "\<nexists>k::int. 100 * of_nat c / of_nat n = (of_int k :: rat) + 1 / 2"
  shows "Math_round (double (double (of_nat c / of_nat n) * 100))
           = Math_round (100 * of_nat c / of_nat n)"
proof (cases "c = 0")
  case True
  then show ?thesis by (simp add: double_zero)
next
  case False
  define r :: rat where "r = of_nat c / of_nat n"
  define p where "p = double (double r * 100)"
  define Y where "Y = 200 * int c + int n"
  define M where "M = 2 * int n"
  define K where "K = Y div M"
  have M: "0 < M" using assms(1) by (simp add: M_def)
  have r: "0 < r" "r \<le> 1" using False assms(1,2) by (simp_all add: r_def)
  have half: "100 * r + 1 / 2 = of_int Y / of_int M"
    using assms(1) by (simp add: r_def Y_def M_def field_simps)
  have split: "Y = M * K + Y mod M" by (simp add: K_def)
  have "Y mod M \<noteq> 0"
  proof
    assume "Y mod M = 0"
    with split have "Y = M * K" by simp
    then have "(of_int Y :: rat) / of_int M = of_int K" using M by simp
    with half have "100 * r = of_int (K - 1) + 1 / 2" by simp
    with assms(4) show False unfolding r_def by (metis times_divide_eq_right)
  qed
  with M have md: "1 \<le> Y mod M" "Y mod M \<le> M - 1"
    using pos_mod_sign[of M Y] pos_mod_bound[of M Y] by linarith+
  have "(of_int Y :: rat) / of_int M = of_int K + of_int (Y mod M) / of_int M"
    by (subst split) (use M in \<open>simp add: field_simps\<close>)
  with half have x: "100 * r + 1 / 2 = of_int K + of_int (Y mod M) / of_int M" by simp
  have lo: "(1::rat) / of_int M \<le> of_int (Y mod M) / of_int M"
    using md(1) M by (intro divide_right_mono) simp_all
  have "(of_int (Y mod M) :: rat) \<le> of_int (M - 1)"
    using md(2) by (simp only: of_int_le_iff)
  then have "(of_int (Y mod M) :: rat) / of_int M \<le> of_int (M - 1) / of_int M"
    using M by (intro divide_right_mono) simp_all
  also have "\<dots> = 1 - 1 / of_int M" using M by (simp add: field_simps)
  finally have hi: "(of_int (Y mod M) :: rat) / of_int M \<le> 1 - 1 / of_int M" .
  have "600 * int n < 2 ^ 53" using assms(3) by simp
  then have "300 * M < 2 ^ 53" by (simp add: M_def)
  then have "(of_int (300 * M) :: rat) < of_int (2 ^ 53)"
    by (simp only: of_int_less_iff)
  then have "(300::rat) / 2 ^ 53 < 1 / of_int M"
    using M by (simp add: field_simps)
  with percent_error[OF r] have err: "\<bar>p - 100 * r\<bar> < 1 / of_int M"
    by (simp add: p_def)
  have "of_int K \<le> p + 1 / 2" "p + 1 / 2 < of_int K + 1"
    using err x lo hi by (simp_all add: abs_less_iff)
  then have "\<lfloor>p + 1 / 2\<rfloor> = K" by (simp add: floor_unique)
  moreover have "\<lfloor>100 * r + 1 / 2\<rfloor> = K"
    unfolding half K_def by (rule floor_divide_of_int_eq)
  ultimately show ?thesis
    by (simp add: Math_round_def p_def r_def)
qed

section \<open>The data service: proofs\<close>

lemmas service_defs =
  returning_def getCurrentUser_def updateUserProfile_def registerUser_def loginUser_def
  resetPassword_def socialLogin_def logout_def getTasks_def addTask_def updateTask_def
  deleteTask_def clearCompletedTasks_def getContacts_def addContact_def updateContact_def
  deleteContact_def getCustomTemplates_def addTemplate_def deleteTemplate_def getDailyPlan_def

subsection \<open>Mode selection\<close>

text \<open>
  Every method that names an owner sends a request to the remote backend exactly when
  \<^verbatim>\<open>useFirestore\<close> holds for that owner; the test is made in each call.
\<close>

lemma remote_when_selected:
  "namesOwner c \<Longrightarrow> (sent (snd (run be c w)) \<noteq> sent w) = useFirestore be (ownerOf c)"
  by (cases c)
     (auto simp: service_defs saveDailyPlan_def send_def Let_def useFirestore_def
           split: option.splits sum.splits)

text \<open>
  C1. The claim: every call uses the remote backend exactly when it was initialised and
  the owning user of the entity is not \<^verbatim>\<open>guest-user\<close>, \<^verbatim>\<open>deleteTask\<close>, \<^verbatim>\<open>deleteContact\<close>
  and \<^verbatim>\<open>deleteTemplate\<close> included. The three delete methods test \<^verbatim>\<open>isReal && firestore\<close>
  only. With the backend initialised, the guest's task goes to local storage when it is
  added (\<^verbatim>\<open>useFirestore\<close> is false for the guest), but deleting it sends \<^verbatim>\<open>deleteDoc\<close> to
  Firestore, which resolves, and the method returns before it reaches local storage:
  the task is still listed afterwards. The guest's contact and template fare the same.
\<close>

theorem deleteTask_of_guest_goes_remote:
  "\<not> useFirestore remoteBackend (Some (task_userId guestTask)) \<and>
   snd (addTask remoteBackend (Inr ()) guestTask fresh) = fresh\<lparr>tf_tasks := [guestTask]\<rparr> \<and>
   deleteTask remoteBackend (Inr ()) ''t1'' (fresh\<lparr>tf_tasks := [guestTask]\<rparr>)
     = (Inr (), fresh\<lparr>tf_tasks := [guestTask], sent := [DeleteDoc ''tasks'' ''t1'']\<rparr>) \<and>
   fst (getTasks remoteBackend (Inr []) ''guest-user''
          (snd (deleteTask remoteBackend (Inr ()) ''t1'' (fresh\<lparr>tf_tasks := [guestTask]\<rparr>))))
     = Inr [guestTask] \<and>
   deleteContact remoteBackend (Inr ()) ''c1'' (fresh\<lparr>tf_contacts := [guestContact]\<rparr>)
     = (Inr (), fresh\<lparr>tf_contacts := [guestContact], sent := [DeleteDoc ''contacts'' ''c1'']\<rparr>) \<and>
   deleteTemplate remoteBackend (Inr ()) ''p1'' (fresh\<lparr>tf_templates := [guestTemplate]\<rparr>)
     = (Inr (), fresh\<lparr>tf_templates := [guestTemplate],
                     sent := [DeleteDoc ''templates'' ''p1'']\<rparr>)"
  by (simp add: useFirestore_def remoteBackend_def guestTask_def addTask_def deleteTask_def
      deleteContact_def deleteTemplate_def getTasks_def fresh_def send_def)

subsection \<open>Exceptions\<close>

text \<open>
  C2, as stated, fails: with the auth backend initialised, \<^verbatim>\<open>resetPassword\<close> and
  \<^verbatim>\<open>socialLogin\<close> await their Firebase Auth call outside any \<^verbatim>\<open>try\<close>, so its rejection
  leaves the method.
\<close>

theorem auth_errors_surface:
  "throws (resetPassword remoteBackend (Inl (FirebaseError ''auth/network-request-failed''))
             ''ann@example.com'' fresh) \<and>
   throws (socialLogin remoteBackend (Inl (FirebaseError ''auth/popup-closed-by-user'')) (Inr ())
             (Inr ()) ''1714640400000'' ''2024-05-02T09:00:00.000Z'' google fresh)"
  by (simp add: resetPassword_def socialLogin_def remoteBackend_def)

text \<open>
  A bare \<^verbatim>\<open>localStorage.setItem\<close> that fails lets its exception out of the method as well,
  where \<^verbatim>\<open>setLocal\<close> would have caught it.
\<close>

lemma bare_write_failure_escapes:
  "fst (getCurrentUser (Inl e) nowIso fresh) = Inl e"
  "fst (updateUserProfile be (Inl e) saved user w) = Inl e"
  "fst (socialLogin localBackend popup saved (Inl e) nowMs nowIso p w) = Inl e"
  by (simp_all add: getCurrentUser_def updateUserProfile_def socialLogin_def fresh_def
        localBackend_def)

text \<open>
  C2, amended. Leave aside a \<^verbatim>\<open>logout\<close> against the remote auth backend and a failing
  bare \<^verbatim>\<open>localStorage.setItem\<close> (in \<^verbatim>\<open>getCurrentUser\<close>, in \<^verbatim>\<open>updateUserProfile\<close> and in the
  local branches of \<^verbatim>\<open>registerUser\<close>, \<^verbatim>\<open>loginUser\<close> and \<^verbatim>\<open>socialLogin\<close>). Then the exception
  that leaves a call is the one \<open>raised\<close> names: the rejection of the awaited Firebase
  Auth call in \<^verbatim>\<open>registerUser\<close>, \<^verbatim>\<open>loginUser\<close>, \<^verbatim>\<open>resetPassword\<close> and \<^verbatim>\<open>socialLogin\<close>;
  without an auth backend, \<^verbatim>\<open>User already exists\<close> from \<^verbatim>\<open>registerUser\<close> and
  \<^verbatim>\<open>Invalid credentials\<close> from \<^verbatim>\<open>loginUser\<close>; and none at all from any other call. The
  task, contact, template and daily-plan methods make no bare write, so no exception
  ever leaves them, whatever the remote backend answers.
\<close>

theorem errors_that_escape:
  assumes "\<not> isLogout c \<or> \<not> (isReal be \<and> auth be)" and "\<not> storageFull c"
  shows "fst (run be c w) = Inl e \<longleftrightarrow> raised be w c = Some e"
  using assms
  by (cases c)
     (auto simp: service_defs saveDailyPlan_def Let_def split: option.splits sum.splits)

theorem errors_that_escape_witness:
  "\<not> isLogout (RegisterUser (Inr \<lparr>uid = ''u'', displayName = None, cred_email = None\<rparr>) (Inr ())
        (Inr ()) ''1714640400000'' ann) \<and>
   \<not> storageFull (RegisterUser (Inr \<lparr>uid = ''u'', displayName = None, cred_email = None\<rparr>)
        (Inr ()) (Inr ()) ''1714640400000'' ann) \<and>
   fst (run localBackend (RegisterUser (Inr \<lparr>uid = ''u'', displayName = None, cred_email = None\<rparr>)
        (Inr ()) (Inr ()) ''1714640400000'' ann) (fresh\<lparr>tf_users := [ann]\<rparr>))
     = Inl (Error ''User already exists'') \<and>
   \<not> isLogout (AddTask (Inl (FirebaseError ''unavailable'')) guestTask) \<and>
   \<not> storageFull (AddTask (Inl (FirebaseError ''unavailable'')) guestTask) \<and>
   fst (run remoteBackend (AddTask (Inl (FirebaseError ''unavailable'')) guestTask) fresh)
     \<noteq> Inl (FirebaseError ''unavailable'') \<and>
   \<not> isLogout (GetCurrentUser (Inr ()) ''2024-05-02T09:00:00.000Z'') \<and>
   \<not> storageFull (GetCurrentUser (Inr ()) ''2024-05-02T09:00:00.000Z'') \<and>
   fst (run localBackend (GetCurrentUser (Inr ()) ''2024-05-02T09:00:00.000Z'') fresh)
     \<noteq> Inl (DOMException ''QuotaExceededError'')"
  using errors_that_escape[of "RegisterUser (Inr \<lparr>uid = ''u'', displayName = None, cred_email = None\<rparr>)
          (Inr ()) (Inr ()) ''1714640400000'' ann" localBackend "fresh\<lparr>tf_users := [ann]\<rparr>"
          "Error ''User already exists''"]
    errors_that_escape[of "AddTask (Inl (FirebaseError ''unavailable'')) guestTask" remoteBackend
          fresh "FirebaseError ''unavailable''"]
    errors_that_escape[of "GetCurrentUser (Inr ()) ''2024-05-02T09:00:00.000Z''" localBackend
          fresh "DOMException ''QuotaExceededError''"]
  by (simp add: localBackend_def ann_def fresh_def)

subsection \<open>deleteTask\<close>

lemma deleteTask_tasks:
  "tf_tasks (snd (deleteTask be d taskId w)) =
     (if isReal be \<and> firestore be \<and> resolved d then tf_tasks w
      else filter (\<lambda>t. task_id t \<noteq> taskId) (tf_tasks w))"
  by (simp add: deleteTask_def send_def Let_def)

lemma deleteTask_fst: "fst (deleteTask be d taskId w) = Inr ()"
  by (simp add: deleteTask_def Let_def)

lemma deleteTask_storage:
  "storage (snd (deleteTask be d taskId w)) =
     (storage w)\<lparr>tf_tasks := tf_tasks (snd (deleteTask be d taskId w))\<rparr>"
  by (simp add: deleteTask_def send_def Let_def storage_def)

lemma deleteTask_local:
  "ranLocal be d \<Longrightarrow>
     tf_tasks (snd (deleteTask be d taskId w)) = filter (\<lambda>t. task_id t \<noteq> taskId) (tf_tasks w)"
  by (auto simp: deleteTask_tasks ranLocal_def)

lemma getTasks_local:
  "\<not> useFirestore be (Some userId) \<or> isl docs \<Longrightarrow>
     fst (getTasks be docs userId w) = Inr (filter (\<lambda>t. task_userId t = userId) (tf_tasks w))"
  by (auto simp: getTasks_def split: sum.splits)

text \<open>
  C9. \<^verbatim>\<open>deleteTask\<close> is idempotent. After a call that ran against local storage, a
  second call with the same id returns without an error and leaves local storage as the
  first call left it, and \<^verbatim>\<open>getTasks\<close>, read from local storage for any user, returns no
  task with that id.
\<close>

theorem deleteTask_idempotent:
  assumes "ranLocal be d1"
  shows "fst (deleteTask be d2 taskId (snd (deleteTask be d1 taskId w))) = Inr () \<and>
         storage (snd (deleteTask be d2 taskId (snd (deleteTask be d1 taskId w))))
           = storage (snd (deleteTask be d1 taskId w)) \<and>
         (\<not> useFirestore be (Some userId) \<or> isl docs \<longrightarrow>
            (\<exists>ts. fst (getTasks be docs userId (snd (deleteTask be d1 taskId w))) = Inr ts \<and>
                  (\<forall>t \<in> set ts. task_id t \<noteq> taskId)))"
proof -
  define w1 where "w1 = snd (deleteTask be d1 taskId w)"
  have once: "tf_tasks w1 = filter (\<lambda>t. task_id t \<noteq> taskId) (tf_tasks w)"
    unfolding w1_def using assms by (rule deleteTask_local)
  have again: "tf_tasks (snd (deleteTask be d2 taskId w1)) = tf_tasks w1"
    by (simp add: deleteTask_tasks once)
  have "storage (snd (deleteTask be d2 taskId w1)) = (storage w1)\<lparr>tf_tasks := tf_tasks w1\<rparr>"
    by (simp only: deleteTask_storage again)
  then have same: "storage (snd (deleteTask be d2 taskId w1)) = storage w1"
    by (simp add: storage_def)
  have listed: "\<exists>ts. fst (getTasks be docs userId w1) = Inr ts \<and> (\<forall>t \<in> set ts. task_id t \<noteq> taskId)"
    if "\<not> useFirestore be (Some userId) \<or> isl docs"
    using getTasks_local[OF that, of w1] by (simp add: once)
  show ?thesis
    using same listed by (simp add: deleteTask_fst w1_def)
qed

theorem deleteTask_idempotent_witness:
  "ranLocal localBackend (Inr ()) \<and>
   storage (snd (deleteTask localBackend (Inr ()) ''t1''
              (snd (deleteTask localBackend (Inr ()) ''t1'' (fresh\<lparr>tf_tasks := [guestTask, bobTask]\<rparr>)))))
     = storage (snd (deleteTask localBackend (Inr ()) ''t1'' (fresh\<lparr>tf_tasks := [guestTask, bobTask]\<rparr>)))"
  using deleteTask_idempotent[of localBackend "Inr ()" "Inr ()" "''t1''" "fresh\<lparr>tf_tasks := [guestTask, bobTask]\<rparr>"]
  by (simp add: ranLocal_def localBackend_def)

text \<open>
  C10. \<^verbatim>\<open>deleteTask\<close> checks no ownership. A call that runs against local storage
  removes every task with the given id, whoever owns it and whoever the current user is,
  keeps the tasks with other ids in their order, and changes nothing else in local
  storage.
\<close>

theorem deleteTask_no_ownership_check:
  assumes "ranLocal be d"
  shows "tf_tasks (snd (deleteTask be d taskId w)) = filter (\<lambda>t. task_id t \<noteq> taskId) (tf_tasks w) \<and>
         (\<forall>t \<in> set (tf_tasks w). task_id t = taskId \<longrightarrow> t \<notin> set (tf_tasks (snd (deleteTask be d taskId w)))) \<and>
         storage (snd (deleteTask be d taskId w)) = (storage w)\<lparr>tf_tasks := filter (\<lambda>t. task_id t \<noteq> taskId) (tf_tasks w)\<rparr>"
  using deleteTask_local[OF assms, of taskId w] by (simp add: deleteTask_storage)


theorem deleteTask_no_ownership_check_witness:
  "ranLocal localBackend (Inr ()) \<and>
   tf_tasks (snd (deleteTask localBackend (Inr ()) ''t2''
      (fresh\<lparr>tf_tasks := [guestTask, bobTask], tf_current_user_profile := Some ann\<rparr>))) = [guestTask]"
  using deleteTask_no_ownership_check[of localBackend "Inr ()" "''t2''"
      "fresh\<lparr>tf_tasks := [guestTask, bobTask], tf_current_user_profile := Some ann\<rparr>"]
  by (simp add: ranLocal_def localBackend_def guestTask_def bobTask_def)

subsection \<open>saveDailyPlan\<close>













section \<open>Task grouping: proofs\<close>

subsection \<open>The sort\<close>

text \<open>
  Whatever the comparator, the sort returns a permutation. When the comparator is the
  difference of a key, the sort is the stable sort by that key.
\<close>

lemma mset_insertSorted: "mset (insertSorted cmp x ys) = add_mset x (mset ys)"
  by (induction ys) auto

lemma mset_sortWith: "mset (sortWith cmp xs) = mset xs"
  by (induction xs) (auto simp: sortWith_def mset_insertSorted)

lemma set_sortWith: "set (sortWith cmp xs) = set xs"
  by (metis mset_sortWith set_mset_mset)

lemma insertSorted_key:
  "\<forall>y \<in> set ys. cmp x y = Some (key x - key y) \<Longrightarrow>
     insertSorted cmp x ys = insort_key key x ys"
  by (induction ys) (auto simp: sortCompare_def)

lemma sortWith_key:
  "\<forall>a \<in> set xs. \<forall>b \<in> set xs. cmp a b = Some (key a - key b) \<Longrightarrow>
     sortWith cmp xs = sort_key key xs"
proof (induction xs)
  case Nil
  show ?case by (simp add: sortWith_def)
next
  case (Cons x xs)
  then have IH: "sortWith cmp xs = sort_key key xs" by simp
  have "\<forall>y \<in> set (sort_key key xs). cmp x y = Some (key x - key y)"
    using Cons.prems by simp
  then have "insertSorted cmp x (sort_key key xs) = insort_key key x (sort_key key xs)"
    by (rule insertSorted_key)
  with IH show ?case by (simp add: sortWith_def)
qed

subsection \<open>The four buckets\<close>

lemma fold_place:
  "fold (place parse tz now) xs g =
     \<lparr>overdue = overdue g @ filter (\<lambda>t. bucketOf parse tz now t = Overdue) xs,
      today = today g @ filter (\<lambda>t. bucketOf parse tz now t = Today) xs,
      upcoming = upcoming g @ filter (\<lambda>t. bucketOf parse tz now t = Upcoming) xs,
      completed = completed g @ filter (\<lambda>t. bucketOf parse tz now t = Completed) xs\<rparr>"
proof (induction xs arbitrary: g)
  case Nil
  show ?case by simp
next
  case (Cons x xs)
  show ?case
    by (simp add: Cons.IH)
       (auto simp: place_def bucketOf_def toDateString_def date_less_def Let_def
             split: option.splits)
qed

lemma groupTasks_eq:
  "groupTasks lower parse tz now q tasks =
     \<lparr>overdue = sortWith (sorter parse)
         (filter (\<lambda>t. bucketOf parse tz now t = Overdue) (filter (matchesQuery lower q) tasks)),
      today = sortWith (sorter parse)
         (filter (\<lambda>t. bucketOf parse tz now t = Today) (filter (matchesQuery lower q) tasks)),
      upcoming = sortWith (sorter parse)
         (filter (\<lambda>t. bucketOf parse tz now t = Upcoming) (filter (matchesQuery lower q) tasks)),
      completed = sortWith (byCreation parse)
         (filter (\<lambda>t. bucketOf parse tz now t = Completed) (filter (matchesQuery lower q) tasks))\<rparr>"
  by (simp add: groupTasks_def fold_place Let_def)

lemma mset_bucketArray:
  "mset (bucketArray (groupTasks lower parse tz now q tasks) b) =
     filter_mset (\<lambda>t. bucketOf parse tz now t = b) (mset (filter (matchesQuery lower q) tasks))"
  by (cases b) (simp_all add: groupTasks_eq mset_sortWith filter_filter_mset del: filter_filter)

lemma set_bucketArray:
  "set (bucketArray (groupTasks lower parse tz now q tasks) b) =
     {t \<in> set tasks. matchesQuery lower q t \<and> bucketOf parse tz now t = b}"
  by (cases b) (auto simp: groupTasks_eq set_sortWith)

lemma buckets_cover:
  "filter_mset (\<lambda>t. f t = Overdue) M + filter_mset (\<lambda>t. f t = Today) M +
   filter_mset (\<lambda>t. f t = Upcoming) M + filter_mset (\<lambda>t. f t = Completed) M = M"
proof (induction M)
  case empty
  show ?case by simp
next
  case (add x M)
  then show ?case by (cases "f x") simp_all
qed

lemma groupTasks_lengths:
  "length (overdue (groupTasks lower parse tz now q tasks))
     + length (today (groupTasks lower parse tz now q tasks))
     + length (upcoming (groupTasks lower parse tz now q tasks))
     + length (completed (groupTasks lower parse tz now q tasks))
     = length (filter (matchesQuery lower q) tasks)"
proof -
  define g where "g = groupTasks lower parse tz now q tasks"
  define F where "F = filter (matchesQuery lower q) tasks"
  have "mset (bucketArray g Overdue) + mset (bucketArray g Today) + mset (bucketArray g Upcoming)
          + mset (bucketArray g Completed) = mset F"
    unfolding g_def F_def mset_bucketArray by (rule buckets_cover)
  then have "size (mset (overdue g) + mset (today g) + mset (upcoming g) + mset (completed g))
          = size (mset F)"
    by simp
  then show ?thesis
    unfolding g_def F_def by (simp only: size_union size_mset)
qed

lemma localDay_mono: "clockMonotone tz \<Longrightarrow> s \<le> t \<Longrightarrow> localDay tz s \<le> localDay tz t"
  unfolding clockMonotone_def localDay_def by (intro zdiv_mono1) auto

lemma upcoming_iff_later_day:
  assumes "clockMonotone tz" and "status t \<noteq> COMPLETED" and "parse (dueDate t) = Some due"
  shows "bucketOf parse tz now t = Upcoming \<longleftrightarrow> localDay tz now < localDay tz due"
proof (cases "due < now")
  case True
  then have "localDay tz due \<le> localDay tz now"
    using localDay_mono[OF assms(1), of due now] by simp
  with True assms(2,3) show ?thesis by (auto simp: bucketOf_def)
next
  case False
  then have "localDay tz now \<le> localDay tz due"
    using localDay_mono[OF assms(1), of now due] by simp
  with False assms(2,3) show ?thesis by (auto simp: bucketOf_def)
qed

lemma includes_str_empty: "includes_str s []"
  by (cases s) simp_all

lemma matchesQuery_empty: "matchesQuery asciiLower [] t"
  by (simp add: matchesQuery_def asciiLower_def includes_str_empty)

lemma clockMonotone_utc: "clockMonotone utc"
  by (simp add: clockMonotone_def utc_def)

lemma dayTasks_grouped:
  "groupTasks asciiLower isoParse utc noon '''' dayTasks =
     \<lparr>overdue = [exampleTask ''late'' ''2024-05-01T12:00:00.000Z'' TODO ''2024-04-30T10:00:00.000Z''],
      today = [exampleTask ''morning'' ''2024-05-02T08:00:00.000Z'' IN_PROGRESS ''2024-05-01T10:00:00.000Z''],
      upcoming = [exampleTask ''tomorrow'' ''2024-05-03T12:00:00.000Z'' TODO ''2024-05-01T10:00:00.000Z'',
                  exampleTask ''undated'' ''soon'' TODO ''2024-05-01T10:00:00.000Z''],
      completed = [exampleTask ''done'' ''2024-05-01T12:00:00.000Z'' COMPLETED ''2024-04-30T10:00:00.000Z'']\<rparr>"
  by code_simp

text \<open>
  C3. With \<open>now\<close> fixed, \<^verbatim>\<open>groupTasks\<close> partitions the tasks that pass the search
  filter: each of the four arrays holds exactly the filtered tasks whose bucket, as the
  specification words it (\<open>bucketOf\<close>), is that array's; together the arrays hold every
  filtered task as often as the filtered list does, and every filtered task is in one
  array and no other. For a task that is not completed and whose due date parses, the
  bucket is \<open>Upcoming\<close> exactly when its due calendar date is after today's, provided
  local clock time does not run backwards.
\<close>

theorem groupTasks_partition:
  "(let g = groupTasks lower parse tz now q tasks; filteredTasks = filter (matchesQuery lower q) tasks in
     (\<forall>b. mset (bucketArray g b)
            = filter_mset (\<lambda>t. bucketOf parse tz now t = b) (mset filteredTasks)) \<and>
     mset (overdue g) + mset (today g) + mset (upcoming g) + mset (completed g)
       = mset filteredTasks \<and>
     (\<forall>t \<in> set filteredTasks.
        length (filter (\<lambda>b. t \<in> set (bucketArray g b)) [Overdue, Today, Upcoming, Completed]) = 1)) \<and>
   (clockMonotone tz \<longrightarrow>
     (\<forall>t due. status t \<noteq> COMPLETED \<and> parse (dueDate t) = Some due \<longrightarrow>
        (bucketOf parse tz now t = Upcoming \<longleftrightarrow> localDay tz now < localDay tz due)))"
proof -
  define g where "g = groupTasks lower parse tz now q tasks"
  define F where "F = filter (matchesQuery lower q) tasks"
  have each: "mset (bucketArray g b) = filter_mset (\<lambda>t. bucketOf parse tz now t = b) (mset F)" for b
    unfolding g_def F_def by (rule mset_bucketArray)
  have "mset (bucketArray g Overdue) + mset (bucketArray g Today) + mset (bucketArray g Upcoming)
          + mset (bucketArray g Completed) = mset F"
    unfolding each by (rule buckets_cover)
  then have whole: "mset (overdue g) + mset (today g) + mset (upcoming g) + mset (completed g) = mset F"
    by simp
  have one: "length (filter (\<lambda>b. t \<in> set (bucketArray g b)) [Overdue, Today, Upcoming, Completed]) = 1"
    if "t \<in> set F" for t
  proof -
    have "t \<in> set (bucketArray g b) \<longleftrightarrow> bucketOf parse tz now t = b" for b
      using that unfolding g_def F_def set_bucketArray by simp
    then show ?thesis by (cases "bucketOf parse tz now t") simp_all
  qed
  from each whole one upcoming_iff_later_day show ?thesis
    unfolding g_def F_def Let_def by blast
qed

theorem groupTasks_partition_witness:
  "clockMonotone utc \<and>
   groupTasks asciiLower isoParse utc noon '''' dayTasks =
     \<lparr>overdue = [exampleTask ''late'' ''2024-05-01T12:00:00.000Z'' TODO ''2024-04-30T10:00:00.000Z''],
      today = [exampleTask ''morning'' ''2024-05-02T08:00:00.000Z'' IN_PROGRESS ''2024-05-01T10:00:00.000Z''],
      upcoming = [exampleTask ''tomorrow'' ''2024-05-03T12:00:00.000Z'' TODO ''2024-05-01T10:00:00.000Z'',
                  exampleTask ''undated'' ''soon'' TODO ''2024-05-01T10:00:00.000Z''],
      completed = [exampleTask ''done'' ''2024-05-01T12:00:00.000Z'' COMPLETED ''2024-04-30T10:00:00.000Z'']\<rparr> \<and>
   mset (overdue (groupTasks asciiLower isoParse utc noon '''' dayTasks))
     + mset (today (groupTasks asciiLower isoParse utc noon '''' dayTasks))
     + mset (upcoming (groupTasks asciiLower isoParse utc noon '''' dayTasks))
     + mset (completed (groupTasks asciiLower isoParse utc noon '''' dayTasks))
     = mset (filter (matchesQuery asciiLower '''') dayTasks)"
  using groupTasks_partition[of asciiLower isoParse utc noon "''''" dayTasks] clockMonotone_utc dayTasks_grouped
  by (simp add: Let_def)

text \<open>
  C8. A task whose due-date string does not parse is grouped like any other: the date
  is an Invalid Date, every comparison with it is false and its date string is
  \<^verbatim>\<open>Invalid Date\<close>, nothing throws. When the task is not completed and passes the search
  filter it is in \<^verbatim>\<open>upcoming\<close> and in no other array, and the four arrays still hold as
  many tasks as passed the filter.
\<close>

theorem unparseable_due_is_upcoming:
  assumes "t \<in> set tasks" and "matchesQuery lower q t"
    and "status t \<noteq> COMPLETED" and "parse (dueDate t) = None"
  shows "t \<in> set (upcoming (groupTasks lower parse tz now q tasks)) \<and>
         t \<notin> set (overdue (groupTasks lower parse tz now q tasks)) \<and>
         t \<notin> set (today (groupTasks lower parse tz now q tasks)) \<and>
         t \<notin> set (completed (groupTasks lower parse tz now q tasks)) \<and>
         length (overdue (groupTasks lower parse tz now q tasks))
           + length (today (groupTasks lower parse tz now q tasks))
           + length (upcoming (groupTasks lower parse tz now q tasks))
           + length (completed (groupTasks lower parse tz now q tasks))
           = length (filter (matchesQuery lower q) tasks)"
proof -
  have b: "bucketOf parse tz now t = Upcoming"
    using assms(3,4) by (simp add: bucketOf_def)
  have m: "t \<in> set (bucketArray (groupTasks lower parse tz now q tasks) c) \<longleftrightarrow> c = Upcoming" for c
    unfolding set_bucketArray using assms(1,2) b by auto
  from m[of Upcoming] m[of Overdue] m[of Today] m[of Completed] groupTasks_lengths[of lower parse tz now q tasks]
  show ?thesis
    by simp
qed

theorem unparseable_due_is_upcoming_witness:
  "exampleTask ''undated'' ''soon'' TODO ''2024-05-01T10:00:00.000Z'' \<in> set dayTasks \<and>
   matchesQuery asciiLower '''' (exampleTask ''undated'' ''soon'' TODO ''2024-05-01T10:00:00.000Z'') \<and>
   status (exampleTask ''undated'' ''soon'' TODO ''2024-05-01T10:00:00.000Z'') \<noteq> COMPLETED \<and>
   isoParse (dueDate (exampleTask ''undated'' ''soon'' TODO ''2024-05-01T10:00:00.000Z'')) = None \<and>
   exampleTask ''undated'' ''soon'' TODO ''2024-05-01T10:00:00.000Z''
     \<in> set (upcoming (groupTasks asciiLower isoParse utc noon '''' dayTasks))"
proof -
  have a: "exampleTask ''undated'' ''soon'' TODO ''2024-05-01T10:00:00.000Z'' \<in> set dayTasks"
    by (simp add: dayTasks_def)
  have b: "matchesQuery asciiLower '''' (exampleTask ''undated'' ''soon'' TODO ''2024-05-01T10:00:00.000Z'')"
    by (rule matchesQuery_empty)
  have c: "status (exampleTask ''undated'' ''soon'' TODO ''2024-05-01T10:00:00.000Z'') \<noteq> COMPLETED"
    by (simp add: exampleTask_def)
  have d: "isoParse (dueDate (exampleTask ''undated'' ''soon'' TODO ''2024-05-01T10:00:00.000Z'')) = None"
    by (simp add: exampleTask_def isoParse_def)
  from unparseable_due_is_upcoming[of "exampleTask ''undated'' ''soon'' TODO ''2024-05-01T10:00:00.000Z''"
      dayTasks asciiLower "''''" isoParse utc noon] a b c d
  show ?thesis
    by simp
qed

subsection \<open>The order inside a bucket\<close>

lemma sorter_key:
  "parse (dueDate a) \<noteq> None \<Longrightarrow> parse (dueDate b) \<noteq> None \<Longrightarrow>
     sorter parse a b = Some (the (parse (dueDate a)) - the (parse (dueDate b)))"
  by (auto simp: sorter_def time_diff_def)

lemma byCreation_key:
  "parse (createdAt a) \<noteq> None \<Longrightarrow> parse (createdAt b) \<noteq> None \<Longrightarrow>
     byCreation parse a b = Some (- the (parse (createdAt a)) - (- the (parse (createdAt b))))"
  by (auto simp: byCreation_def time_diff_def)

lemma sortWith_sorter:
  assumes "allParse parse dueDate xs"
  shows "sortWith (sorter parse) xs = sort_key (\<lambda>t. the (parse (dueDate t))) xs"
  using assms by (intro sortWith_key) (simp add: allParse_def list_all_iff sorter_key)

lemma sortWith_byCreation:
  assumes "allParse parse createdAt xs"
  shows "sortWith (byCreation parse) xs = sort_key (\<lambda>t. - the (parse (createdAt t))) xs"
  using assms by (intro sortWith_key) (simp add: allParse_def list_all_iff byCreation_key)

lemma allParse_sortWith: "allParse parse field (sortWith cmp xs) = allParse parse field xs"
  by (simp add: allParse_def list_all_iff set_sortWith)

lemma sorted_by_due:
  assumes "allParse parse dueDate xs"
  shows "sorted_wrt (dueAscending parse) (sortWith (sorter parse) xs)"
proof -
  let ?key = "\<lambda>t. the (parse (dueDate t))"
  have "sorted (map ?key (sort_key ?key xs))" by (rule sorted_sort_key)
  then have "sorted_wrt (\<lambda>a b. ?key a \<le> ?key b) (sort_key ?key xs)"
    by (simp add: sorted_map)
  moreover have "dueAscending parse a b" if "?key a \<le> ?key b" for a b
    using that by (auto simp: dueAscending_def split: option.splits)
  ultimately have "sorted_wrt (dueAscending parse) (sort_key ?key xs)"
    by (rule sorted_wrt_mono_rel[rotated]) blast
  then show ?thesis by (simp add: sortWith_sorter[OF assms])
qed

lemma sorted_by_creation:
  assumes "allParse parse createdAt xs"
  shows "sorted_wrt (createdDescending parse) (sortWith (byCreation parse) xs)"
proof -
  let ?key = "\<lambda>t. - the (parse (createdAt t))"
  have "sorted (map ?key (sort_key ?key xs))" by (rule sorted_sort_key)
  then have "sorted_wrt (\<lambda>a b. ?key a \<le> ?key b) (sort_key ?key xs)"
    by (simp add: sorted_map)
  moreover have "createdDescending parse a b" if "?key a \<le> ?key b" for a b
    using that by (auto simp: createdDescending_def split: option.splits)
  ultimately have "sorted_wrt (createdDescending parse) (sort_key ?key xs)"
    by (rule sorted_wrt_mono_rel[rotated]) blast
  then show ?thesis by (simp add: sortWith_byCreation[OF assms])
qed

lemma stable_by_due:
  assumes "allParse parse dueDate xs"
  shows "filter (\<lambda>t. parse (dueDate t) = Some k) (sortWith (sorter parse) xs)
           = filter (\<lambda>t. parse (dueDate t) = Some k) xs"
proof -
  let ?key = "\<lambda>t. the (parse (dueDate t))"
  have eq: "filter (\<lambda>t. parse (dueDate t) = Some k) ys = filter (\<lambda>t. ?key t = k) ys"
    if "set ys = set xs" for ys
    using assms that by (intro filter_cong) (auto simp: allParse_def list_all_iff)
  have "filter (\<lambda>t. ?key t = k) (sort_key ?key xs) = filter (\<lambda>t. ?key t = k) xs"
    by (rule sort_key_stable)
  then show ?thesis
    by (simp add: sortWith_sorter[OF assms] eq)
qed

lemma stable_by_creation:
  assumes "allParse parse createdAt xs"
  shows "filter (\<lambda>t. parse (createdAt t) = Some k) (sortWith (byCreation parse) xs)
           = filter (\<lambda>t. parse (createdAt t) = Some k) xs"
proof -
  let ?key = "\<lambda>t. - the (parse (createdAt t))"
  have eq: "filter (\<lambda>t. parse (createdAt t) = Some k) ys = filter (\<lambda>t. ?key t = - k) ys"
    if "set ys = set xs" for ys
    using assms that by (intro filter_cong) (auto simp: allParse_def list_all_iff)
  have "filter (\<lambda>t. ?key t = - k) (sort_key ?key xs) = filter (\<lambda>t. ?key t = - k) xs"
    by (rule sort_key_stable)
  then show ?thesis
    by (simp add: sortWith_byCreation[OF assms] eq)
qed

lemma overdue_parse:
  "allParse parse dueDate (filter (\<lambda>t. bucketOf parse tz now t = Overdue) xs)"
  by (auto simp: allParse_def list_all_iff bucketOf_def split: if_splits option.splits)

lemma today_parse:
  "allParse parse dueDate (filter (\<lambda>t. bucketOf parse tz now t = Today) xs)"
  by (auto simp: allParse_def list_all_iff bucketOf_def split: if_splits option.splits)

lemma weekTasks_grouped:
  "groupTasks asciiLower isoParse utc noon '''' weekTasks =
     \<lparr>overdue = [], today = [],
      upcoming = [exampleTask ''u2'' ''2024-05-05T09:00:00.000Z'' TODO ''2024-05-01T10:00:00.000Z'',
                  exampleTask ''u3'' ''2024-05-05T09:00:00.000Z'' IN_PROGRESS ''2024-04-30T10:00:00.000Z'',
                  exampleTask ''u1'' ''2024-05-10T09:00:00.000Z'' TODO ''2024-05-01T10:00:00.000Z''],
      completed = [exampleTask ''c2'' ''2024-05-03T12:00:00.000Z'' COMPLETED ''2024-05-01T10:00:00.000Z'',
                   exampleTask ''c1'' ''2024-05-01T12:00:00.000Z'' COMPLETED ''2024-04-30T10:00:00.000Z'']\<rparr>"
  by code_simp

text \<open>
  C5, as stated, fails on a list with an unparseable due date. The comparator returns
  \<^verbatim>\<open>NaN\<close> for every pair with the undated task, which the sort reads as "equal", so the
  task due on 10 May stays in front of the task due on 5 May. On this array the order
  does not hang on the sorting algorithm of the model: V8 first looks for a run, comparing
  each element with the one before it, gets \<^verbatim>\<open>NaN\<close> both times, takes the whole array for
  an ascending run and returns it as it is.
\<close>

theorem unparseable_due_breaks_order:
  "upcoming (groupTasks asciiLower isoParse utc noon ''''
      [exampleTask ''far'' ''2024-05-10T09:00:00.000Z'' TODO ''2024-05-01T10:00:00.000Z'',
       exampleTask ''undated'' ''soon'' TODO ''2024-05-01T10:00:00.000Z'',
       exampleTask ''near'' ''2024-05-05T09:00:00.000Z'' TODO ''2024-05-01T10:00:00.000Z''])
     = [exampleTask ''far'' ''2024-05-10T09:00:00.000Z'' TODO ''2024-05-01T10:00:00.000Z'',
        exampleTask ''undated'' ''soon'' TODO ''2024-05-01T10:00:00.000Z'',
        exampleTask ''near'' ''2024-05-05T09:00:00.000Z'' TODO ''2024-05-01T10:00:00.000Z''] \<and>
   \<not> sorted_wrt (dueAscending isoParse)
      (upcoming (groupTasks asciiLower isoParse utc noon ''''
        [exampleTask ''far'' ''2024-05-10T09:00:00.000Z'' TODO ''2024-05-01T10:00:00.000Z'',
         exampleTask ''undated'' ''soon'' TODO ''2024-05-01T10:00:00.000Z'',
         exampleTask ''near'' ''2024-05-05T09:00:00.000Z'' TODO ''2024-05-01T10:00:00.000Z'']))"
  by code_simp

text \<open>
  C5, amended. \<^verbatim>\<open>overdue\<close> and \<^verbatim>\<open>today\<close> hold only tasks whose due date parses and are
  sorted ascending by due timestamp. \<^verbatim>\<open>upcoming\<close> is sorted ascending by due timestamp
  when the due dates of its tasks all parse, and \<^verbatim>\<open>completed\<close> is sorted descending by
  creation timestamp when the creation timestamps of its tasks all parse. In each of
  these cases the tasks with one and the same timestamp \<open>k\<close> stand in the bucket in the
  order they have in the task list.
\<close>

theorem buckets_sorted:
  "(let g = groupTasks lower parse tz now q tasks; filteredTasks = filter (matchesQuery lower q) tasks in
     allParse parse dueDate (overdue g) \<and>
     sorted_wrt (dueAscending parse) (overdue g) \<and>
     filter (\<lambda>t. parse (dueDate t) = Some k) (overdue g)
       = filter (\<lambda>t. parse (dueDate t) = Some k)
           (filter (\<lambda>t. bucketOf parse tz now t = Overdue) filteredTasks) \<and>
     allParse parse dueDate (today g) \<and>
     sorted_wrt (dueAscending parse) (today g) \<and>
     filter (\<lambda>t. parse (dueDate t) = Some k) (today g)
       = filter (\<lambda>t. parse (dueDate t) = Some k)
           (filter (\<lambda>t. bucketOf parse tz now t = Today) filteredTasks) \<and>
     (allParse parse dueDate (upcoming g) \<longrightarrow>
        sorted_wrt (dueAscending parse) (upcoming g) \<and>
        filter (\<lambda>t. parse (dueDate t) = Some k) (upcoming g)
          = filter (\<lambda>t. parse (dueDate t) = Some k)
              (filter (\<lambda>t. bucketOf parse tz now t = Upcoming) filteredTasks)) \<and>
     (allParse parse createdAt (completed g) \<longrightarrow>
        sorted_wrt (createdDescending parse) (completed g) \<and>
        filter (\<lambda>t. parse (createdAt t) = Some k) (completed g)
          = filter (\<lambda>t. parse (createdAt t) = Some k)
              (filter (\<lambda>t. bucketOf parse tz now t = Completed) filteredTasks)))"
proof -
  define F where "F = filter (matchesQuery lower q) tasks"
  define Ov where "Ov = filter (\<lambda>t. bucketOf parse tz now t = Overdue) F"
  define Td where "Td = filter (\<lambda>t. bucketOf parse tz now t = Today) F"
  define Up where "Up = filter (\<lambda>t. bucketOf parse tz now t = Upcoming) F"
  define Co where "Co = filter (\<lambda>t. bucketOf parse tz now t = Completed) F"
  have g: "groupTasks lower parse tz now q tasks =
      \<lparr>overdue = sortWith (sorter parse) Ov, today = sortWith (sorter parse) Td,
       upcoming = sortWith (sorter parse) Up, completed = sortWith (byCreation parse) Co\<rparr>"
    unfolding Ov_def Td_def Up_def Co_def F_def by (rule groupTasks_eq)
  have o: "allParse parse dueDate Ov" unfolding Ov_def by (rule overdue_parse)
  have t: "allParse parse dueDate Td" unfolding Td_def by (rule today_parse)
  have u: "sorted_wrt (dueAscending parse) (sortWith (sorter parse) Up) \<and>
           filter (\<lambda>t. parse (dueDate t) = Some k) (sortWith (sorter parse) Up)
             = filter (\<lambda>t. parse (dueDate t) = Some k) Up"
    if "allParse parse dueDate (sortWith (sorter parse) Up)"
    using that sorted_by_due[of parse Up] stable_by_due[of parse Up k]
    by (simp add: allParse_sortWith)
  have c: "sorted_wrt (createdDescending parse) (sortWith (byCreation parse) Co) \<and>
           filter (\<lambda>t. parse (createdAt t) = Some k) (sortWith (byCreation parse) Co)
             = filter (\<lambda>t. parse (createdAt t) = Some k) Co"
    if "allParse parse createdAt (sortWith (byCreation parse) Co)"
    using that sorted_by_creation[of parse Co] stable_by_creation[of parse Co k]
    by (simp add: allParse_sortWith)
  from o t u c sorted_by_due[OF o] sorted_by_due[OF t] stable_by_due[OF o, of k] stable_by_due[OF t, of k]
  show ?thesis
    unfolding Let_def g F_def[symmetric] Ov_def[symmetric] Td_def[symmetric] Up_def[symmetric]
      Co_def[symmetric]
    by (simp add: allParse_sortWith)
qed

theorem buckets_sorted_witness:
  "allParse isoParse dueDate (upcoming (groupTasks asciiLower isoParse utc noon '''' weekTasks)) \<and>
   allParse isoParse createdAt (completed (groupTasks asciiLower isoParse utc noon '''' weekTasks)) \<and>
   sorted_wrt (dueAscending isoParse) (upcoming (groupTasks asciiLower isoParse utc noon '''' weekTasks)) \<and>
   sorted_wrt (createdDescending isoParse) (completed (groupTasks asciiLower isoParse utc noon '''' weekTasks)) \<and>
   upcoming (groupTasks asciiLower isoParse utc noon '''' weekTasks)
     = [exampleTask ''u2'' ''2024-05-05T09:00:00.000Z'' TODO ''2024-05-01T10:00:00.000Z'',
        exampleTask ''u3'' ''2024-05-05T09:00:00.000Z'' IN_PROGRESS ''2024-04-30T10:00:00.000Z'',
        exampleTask ''u1'' ''2024-05-10T09:00:00.000Z'' TODO ''2024-05-01T10:00:00.000Z'']"
proof -
  have a: "allParse isoParse dueDate (upcoming (groupTasks asciiLower isoParse utc noon '''' weekTasks))"
    by code_simp
  have b: "allParse isoParse createdAt (completed (groupTasks asciiLower isoParse utc noon '''' weekTasks))"
    by code_simp
  from buckets_sorted[of asciiLower isoParse utc noon "''''" weekTasks] a b weekTasks_grouped show ?thesis
    by (simp add: Let_def)
qed

section \<open>Heatmap and progress: proofs\<close>

subsection \<open>getWeeklyHeatmap\<close>




lemma once:
  "length (filter (\<lambda>t. P t \<or> Q t) xs) + length (filter (\<lambda>t. P t \<and> Q t) xs)
     = length (filter P xs) + length (filter Q xs)"
  by (induction xs) auto



subsection \<open>getTodayProgress\<close>

lemma due_today_iff:
  "toDateString tz (parse s) = toDateString tz (Some now) \<longleftrightarrow> fallsOn parse tz (localDay tz now) s"
  by (simp add: toDateString_def fallsOn_def split: option.splits)

lemma one_third: "Math_round (double (double (1 / 3) * 100)) = 33"
  by code_simp

text \<open>
  C4, as stated, fails. Take forty tasks due today, twenty-three of them completed. The
  progress shown is 57: \<^verbatim>\<open>23 / 40\<close> rounds to a double just below 0.575, its product
  with 100 to 57.49999999999999, and \<^verbatim>\<open>Math.round\<close> of that is 57. The claim's formula
  gives 58 when "today-bucket tasks" are the tasks due today (100 * 23 / 40 is 57.5),
  and 0 when they are the \<^verbatim>\<open>today\<close> array of \<^verbatim>\<open>groupTasks\<close>, which holds the seventeen
  tasks that are not completed.
\<close>

theorem progress_is_not_the_rounded_ratio:
  "getTodayProgress isoParse utc noon fortyToday = 57 \<and>
   length (dueOn isoParse utc (localDay utc noon) fortyToday) = 40 \<and>
   length (completedOf (dueOn isoParse utc (localDay utc noon) fortyToday)) = 23 \<and>
   Math_round (100 * 23 / 40) = 58 \<and>
   length (today (groupTasks asciiLower isoParse utc noon [] fortyToday)) = 17 \<and>
   length (completedOf (today (groupTasks asciiLower isoParse utc noon [] fortyToday))) = 0 \<and>
   Math_round (100 * 0 / 17) = 0"
  by code_simp

text \<open>
  C4, amended. Let \<open>n\<close> be the number of tasks of the whole list (no search filter,
  completed tasks included) whose due calendar date is today's, and \<open>c\<close> the number of
  those with status COMPLETED. The progress is 0 when \<open>n\<close> is 0. Otherwise it is
  \<^verbatim>\<open>Math.round\<close> of the double \<^verbatim>\<open>(c / n) * 100\<close>; for a list of fewer than \<open>2 ^ 32\<close> tasks
  that is the exact ratio \<open>100 * c / n\<close> rounded to the nearest integer, whenever the
  ratio is not exactly halfway between two integers. Three tasks due today with one of
  them completed give 33.
\<close>

theorem progress_of_today:
  "(let n = length (dueOn parse tz (localDay tz now) tasks);
        c = length (completedOf (dueOn parse tz (localDay tz now) tasks))
    in (n = 0 \<longrightarrow> getTodayProgress parse tz now tasks = 0) \<and>
       (0 < n \<longrightarrow> getTodayProgress parse tz now tasks
                    = Math_round (double (double (of_nat c / of_nat n) * 100))) \<and>
       (0 < n \<and> length tasks < 2 ^ 32 \<and>
        (\<nexists>k::int. 100 * of_nat c / of_nat n = (of_int k :: rat) + 1 / 2) \<longrightarrow>
          getTodayProgress parse tz now tasks = Math_round (100 * of_nat c / of_nat n)) \<and>
       (n = 3 \<and> c = 1 \<longrightarrow> getTodayProgress parse tz now tasks = 33))"
proof -
  define n where "n = length (dueOn parse tz (localDay tz now) tasks)"
  define c where "c = length (completedOf (dueOn parse tz (localDay tz now) tasks))"
  have g: "getTodayProgress parse tz now tasks =
             (if n = 0 then 0 else Math_round (double (double (of_nat c / of_nat n) * 100)))"
    by (simp add: getTodayProgress_def Let_def due_today_iff n_def c_def dueOn_def completedOf_def)
  have cn: "c \<le> n" by (simp add: c_def n_def completedOf_def)
  have nl: "n \<le> length tasks" by (simp add: n_def dueOn_def)
  have exact: "getTodayProgress parse tz now tasks = Math_round (100 * of_nat c / of_nat n)"
    if "0 < n" "length tasks < 2 ^ 32"
       "\<nexists>k::int. 100 * of_nat c / of_nat n = (of_int k :: rat) + 1 / 2"
  proof -
    from nl that(2) have "n < 2 ^ 32" by (rule le_less_trans)
    from progress_round[OF that(1) cn this that(3)] that(1) show ?thesis
      by (simp add: g)
  qed
  have three: "getTodayProgress parse tz now tasks = 33" if "n = 3" "c = 1"
    using that one_third by (simp add: g)
  from g exact three show ?thesis
    unfolding Let_def n_def[symmetric] c_def[symmetric] by auto
qed

theorem progress_of_today_witness:
  "length (dueOn isoParse utc (localDay utc noon) threeToday) = 3 \<and>
   length (completedOf (dueOn isoParse utc (localDay utc noon) threeToday)) = 1 \<and>
   getTodayProgress isoParse utc noon threeToday = 33 \<and>
   length (dueOn isoParse utc (localDay utc noon) []) = 0 \<and>
   getTodayProgress isoParse utc noon [] = 0"
proof -
  have a: "length (dueOn isoParse utc (localDay utc noon) threeToday) = 3"
    by code_simp
  have b: "length (completedOf (dueOn isoParse utc (localDay utc noon) threeToday)) = 1"
    by code_simp
  have c: "length (dueOn isoParse utc (localDay utc noon) []) = 0"
    by (simp add: dueOn_def)
  from progress_of_today[of isoParse utc noon threeToday] progress_of_today[of isoParse utc noon "[]"] a b c
  show ?thesis
    by (simp add: Let_def)
qed

end
